theory Spec2Isabelle
  imports Main
begin

section \<open>Data model of the reposter\<close>

text \<open>
  Identifiers of channels, guilds, users, messages and emojis are the platform's
  snowflakes: decimal strings in the program, compared as numbers by the platform's
  \<open>after\<close> cursor. They are natural numbers here.
\<close>

type_synonym snowflake = nat

text \<open>The value stored under a key of \<open>Config.live\<close>.\<close>

record live_rule =
  live_channel :: snowflake
  live_hook :: bool

text \<open>
  \<open>interface Config\<close>. Each \<open>Record<string, T>\<close> is a partial map from identifiers.
  A replacement table is kept as the list of its (find, replace) pairs in the order in
  which \<open>for (let find in replace)\<close> visits them.
\<close>

record config =
  replacements :: "snowflake \<rightharpoonup> (string \<times> string) list"
  nicknames :: "snowflake \<rightharpoonup> bool"
  prefixes :: "snowflake \<rightharpoonup> string"
  active :: "snowflake \<rightharpoonup> bool"
  tags :: "snowflake \<rightharpoonup> bool"
  pins :: "snowflake \<rightharpoonup> bool"
  live :: "snowflake \<rightharpoonup> live_rule"

datatype channel_kind =
  Text_kind | Dm_kind | Group_kind | Voice_kind | Category_kind | News_kind | Store_kind
  | Unknown_kind

record channel =
  channel_id :: snowflake
  guild :: "snowflake option"
  kind :: channel_kind
  channel_name :: string

text \<open>\<open>(channel.guild || channel).id\<close>: the key of the per-guild settings.\<close>

definition home_id :: "channel \<Rightarrow> snowflake" where
  "home_id c = (case guild c of Some g \<Rightarrow> g | None \<Rightarrow> channel_id c)"

text \<open>A guild as \<open>guilds.fetch\<close> returns it.\<close>

record guild_info =
  guild_id :: snowflake
  guild_name :: string

record user =
  user_id :: snowflake
  username :: string
  user_tag :: string
  member_name :: "string option"
  avatar_url :: string
  is_bot :: bool

text \<open>An attachment: its size in bytes and its address.\<close>

record attachment =
  byte_size :: nat
  attachment_url :: string

record embed =
  embed_rich :: bool
  embed_author :: "string option"
  embed_description :: "string option"
  embed_footer :: "string option"
  embed_title :: "string option"

record reaction =
  emoji_id :: "snowflake option"
  emoji_name :: string

datatype message_type =
  Default | RecipientAdd | RecipientRemove | Call | ChannelNameChange | ChannelIconChange
  | ChannelPinnedMessage | UserJoin | Other_type

record message =
  message_id :: snowflake
  message_channel :: channel
  message_type :: message_type
  author :: user
  content :: string
  attachments :: "attachment list"
  embeds :: "embed list"
  reactions :: "reaction list"
  mentions :: "channel list"

subsection \<open>What the program does to the outside\<close>

text \<open>
  What a \<open>send\<close> carries: a text, a list of files to upload, a rich embed, the
  information card of \<open>sendInfo\<close>, the card of a channel found by name or the card of
  \<open>sendCommands\<close> (the fields of the cards are not modelled, only the channel they name).
\<close>

datatype payload =
  Text string | Files "string list" | Rich embed | Info_card snowflake | Match_card snowflake
  | Commands_card snowflake

text \<open>
  One call of the platform client, with the channel it is made on: a send, a reaction
  put on the message just sent with that payload, the renaming of a webhook, a history
  fetch (limit, cursor) and a fetch of the pins.
\<close>

datatype event =
  Send snowflake payload
  | React snowflake payload reaction
  | Webhook_edit snowflake string string
  | Fetch snowflake nat snowflake
  | Fetch_pinned snowflake

text \<open>
  What the program can raise: the two errors of the language, and the rejection of a
  network call that the program does not catch.
\<close>

datatype error = TypeError | SyntaxError | Rejected

text \<open>
  The state of the running program: the configuration object, the copy that
  \<open>updateConfig\<close> last wrote to \<open>config.json\<close>, and the handlers of other events that
  are still to run. The program is single-threaded: another handler runs only while
  this one waits in an \<open>await\<close> of a network call. \<open>pending\<close> lists what those handlers
  do to the configuration, one entry for each coming network call in turn; with no
  entry left nothing else happens in between.
\<close>

record world =
  config :: config
  saved :: config
  pending :: "(config \<Rightarrow> config) list"

text \<open>
  A function of the program that cannot raise gives the calls it made and the state
  it left (\<open>action\<close>); one that can raise gives the error as well, with the calls made
  before it (\<open>task\<close>).
\<close>

type_synonym action = "world \<Rightarrow> event list \<times> world"

type_synonym outcome = "error option \<times> event list \<times> world"

type_synonym task = "world \<Rightarrow> outcome"

text \<open>The point where a network call is awaited: the next pending handler runs.\<close>

definition await :: "world \<Rightarrow> world" where
  "await w = (case pending w of [] \<Rightarrow> w
     | g # gs \<Rightarrow> w\<lparr>config := g (config w), pending := gs\<rparr>)"

text \<open>
  A call that is awaited. (A call that is not awaited, as the replies of the commands,
  is recorded without that point.)
\<close>

definition call_await :: "event \<Rightarrow> action" where
  "call_await e w = ([e], await w)"

definition returned :: "event list \<times> world \<Rightarrow> outcome" where
  "returned r = (None, fst r, snd r)"

definition raise :: "error \<Rightarrow> task" where
  "raise e w = (Some e, [], w)"

text \<open>
  Sequencing: the rest runs in the state the first part left, unless that part raised.
\<close>

fun after :: "outcome \<Rightarrow> task \<Rightarrow> outcome" where
  "after (Some e, es, w) g = (Some e, es, w)"
| "after (None, es, w) g = (case g w of (err, es', w') \<Rightarrow> (err, es @ es', w'))"

definition updateConfig :: "world \<Rightarrow> world" where
  "updateConfig w = w\<lparr>saved := config w\<rparr>"

subsection \<open>Strings\<close>

fun startsWith :: "string \<Rightarrow> string \<Rightarrow> bool" where
  "startsWith s [] = True"
| "startsWith [] (p # ps) = False"
| "startsWith (c # cs) (p # ps) = (c = p \<and> startsWith cs ps)"

text \<open>\<open>str_includes s p\<close>: the text \<open>p\<close> occurs somewhere in \<open>s\<close>.\<close>

fun str_includes :: "string \<Rightarrow> string \<Rightarrow> bool" where
  "str_includes [] p = (p = [])"
| "str_includes (c # cs) p = (startsWith (c # cs) p \<or> str_includes cs p)"

text \<open>
  \<open>value.match(/w1|w2|...|wn/)\<close> for words without regular-expression operators: the
  match is not anchored, so it succeeds when one of the words occurs in the value.
\<close>

definition matchesAny :: "string list \<Rightarrow> string \<Rightarrow> bool" where
  "matchesAny ws v = list_ex (str_includes v) ws"

text \<open>\<open>toUpperCase\<close> and \<open>toLowerCase\<close> on the ASCII letters.\<close>

definition lower_letters :: string where
  "lower_letters = ''abcdefghijklmnopqrstuvwxyz''"

definition upper_letters :: string where
  "upper_letters = ''ABCDEFGHIJKLMNOPQRSTUVWXYZ''"

definition upperChar :: "char \<Rightarrow> char" where
  "upperChar c = (case map_of (zip lower_letters upper_letters) c of Some u \<Rightarrow> u | None \<Rightarrow> c)"

definition lowerChar :: "char \<Rightarrow> char" where
  "lowerChar c = (case map_of (zip upper_letters lower_letters) c of Some l \<Rightarrow> l | None \<Rightarrow> c)"

definition capitalizeFirst :: "string \<Rightarrow> string" where
  "capitalizeFirst s = (case s of [] \<Rightarrow> [] | c # cs \<Rightarrow> upperChar c # cs)"

text \<open>A number in decimal, and the number that a string of digits denotes.\<close>

fun decimal :: "nat \<Rightarrow> string" where
  "decimal n = (if n < 10 then [''0123456789'' ! n]
                else decimal (n div 10) @ [''0123456789'' ! (n mod 10)])"

declare decimal.simps [simp del]

definition digit_of :: "char \<Rightarrow> nat option" where
  "digit_of c = map_of (zip ''0123456789'' [0, 1, 2, 3, 4, 5, 6, 7, 8, 9]) c"

definition number_of :: "string \<Rightarrow> nat option" where
  "number_of s = (if s = [] then None
     else fold (\<lambda>c acc. case (acc, digit_of c) of (Some a, Some d) \<Rightarrow> Some (a * 10 + d) | _ \<Rightarrow> None)
            s (Some 0))"

section \<open>Commands on the configuration\<close>

text \<open>\<open>inactive(to, from)\<close>: with a source given, only the source's flag is read.\<close>

definition truthy :: "bool option \<Rightarrow> bool" where
  "truthy b = (b = Some True)"

definition inactive :: "config \<Rightarrow> channel \<Rightarrow> channel option \<Rightarrow> bool" where
  "inactive cfg to from = (case from of
       Some f \<Rightarrow> \<not> truthy (active cfg (channel_id f))
     | None \<Rightarrow> \<not> truthy (active cfg (channel_id to)))"

datatype flag_key = Tags | Nicknames | Pins

definition key_name :: "flag_key \<Rightarrow> string" where
  "key_name k = (case k of Tags \<Rightarrow> ''tags'' | Nicknames \<Rightarrow> ''nicknames'' | Pins \<Rightarrow> ''pins'')"

definition get_flag :: "flag_key \<Rightarrow> config \<Rightarrow> snowflake \<rightharpoonup> bool" where
  "get_flag k cfg = (case k of Tags \<Rightarrow> tags cfg | Nicknames \<Rightarrow> nicknames cfg | Pins \<Rightarrow> pins cfg)"

definition set_flag :: "flag_key \<Rightarrow> snowflake \<Rightarrow> bool \<Rightarrow> config \<Rightarrow> config" where
  "set_flag k g b cfg = (case k of
       Tags \<Rightarrow> cfg\<lparr>tags := (tags cfg)(g \<mapsto> b)\<rparr>
     | Nicknames \<Rightarrow> cfg\<lparr>nicknames := (nicknames cfg)(g \<mapsto> b)\<rparr>
     | Pins \<Rightarrow> cfg\<lparr>pins := (pins cfg)(g \<mapsto> b)\<rparr>)"

definition truthy_words :: "string list" where
  "truthy_words = [''1'', ''true'', ''yes'', ''confirm'', ''agree'', ''enable'', ''on'',
     ''positive'', ''accept'', ''ye'', ''yep'', ''ya'', ''yah'', ''yeah'', ''sure'', ''ok'',
     ''okay'']"

definition falsy_words :: "string list" where
  "falsy_words = [''0'', ''false'', ''no'', ''deny'', ''denied'', ''disagree'', ''disable'',
     ''off'', ''negative'', ''-1'', ''nah'', ''na'', ''nope'', ''stop'', ''end'', ''cease'']"

text \<open>The two emoji of the replies, as their UTF-8 bytes.\<close>

definition check_mark :: string where
  "check_mark = [CHR 0xE2, CHR 0x9C, CHR 0x85]"

definition cross_mark :: string where
  "cross_mark = [CHR 0xE2, CHR 0x9D, CHR 0x8C]"

text \<open>
  \<open>setBoolean(channel, key, value)\<close>. The value is \<open>args[2]\<close>: absent when the command
  has no third word, and falsy too when it is the empty string.
\<close>

definition setBoolean :: "channel \<Rightarrow> flag_key \<Rightarrow> string option \<Rightarrow> action" where
  "setBoolean ch key val w =
     (let g = home_id ch;
          enabled = truthy (get_flag key (config w) g);
          property = capitalizeFirst (key_name key);
          given = (case val of None \<Rightarrow> [] | Some v \<Rightarrow> v)
      in if given \<noteq> [] \<and> matchesAny truthy_words given then
           ([Send (channel_id ch) (Text (check_mark @ '' **'' @ property @ '' on!**''))],
            updateConfig (w\<lparr>config := set_flag key g True (config w)\<rparr>))
         else if given \<noteq> [] \<and> matchesAny falsy_words given then
           ([Send (channel_id ch) (Text (cross_mark @ '' **'' @ property @ '' off!**''))],
            updateConfig (w\<lparr>config := set_flag key g False (config w)\<rparr>))
         else
           ([Send (channel_id ch) (Text ((if enabled then cross_mark else check_mark)
               @ '' **'' @ property @ '' toggled '' @ (if enabled then ''off'' else ''on'')
               @ ''!**''))],
            updateConfig (w\<lparr>config := set_flag key g (\<not> enabled) (config w)\<rparr>)))"

text \<open>
  \<open>stop(channel)\<close>. \<open>updateStatus\<close> only sets the bot's presence line and is left out.
\<close>

definition stop :: "channel \<Rightarrow> action" where
  "stop ch w =
     ([Send (channel_id ch) (Text ''**Reposting Terminated!**'')],
      updateConfig (w\<lparr>config := (config w)\<lparr>
          active := (active (config w))(channel_id ch := None),
          live := (live (config w))(channel_id ch := None)\<rparr>\<rparr>))"

text \<open>The stored prefix, or \<open>/\<close> when none or the empty one is stored.\<close>

definition prefix_of :: "config \<Rightarrow> snowflake \<Rightarrow> string" where
  "prefix_of cfg g = (case prefixes cfg g of None \<Rightarrow> ''/'' | Some s \<Rightarrow> if s = [] then ''/'' else s)"

text \<open>\<open>setPrefix(channel, prefix)\<close>\<close>

definition setPrefix :: "channel \<Rightarrow> string option \<Rightarrow> action" where
  "setPrefix ch val w =
     (let g = home_id ch;
          previous = prefix_of (config w) g;
          given = (case val of None \<Rightarrow> [] | Some v \<Rightarrow> v)
      in if given \<noteq> [] then
           ([Send (channel_id ch) (Text (''**Changed prefix from `'' @ previous @ ''` to `''
               @ given @ ''`!**''))],
            updateConfig (w\<lparr>config := (config w)\<lparr>prefixes := (prefixes (config w))(g \<mapsto> given)\<rparr>\<rparr>))
         else
           ([Send (channel_id ch) (Text (''**Missing `prefix` argument! `'' @ previous
               @ ''repost prefix <PREFIX>`**''))], w))"

text \<open>
  Assigning a property of a table. The language visits the keys that are array indices
  first, in numeric order, and then the other keys in the order of their creation; an
  existing key keeps its place.
\<close>

definition index_key :: "string \<Rightarrow> nat option" where
  "index_key k = (case number_of k of
       Some n \<Rightarrow> if decimal n = k \<and> n < 4294967295 then Some n else None
     | None \<Rightarrow> None)"

fun insert_index :: "nat \<Rightarrow> string \<times> string \<Rightarrow> (string \<times> string) list \<Rightarrow> (string \<times> string) list" where
  "insert_index n kv [] = [kv]"
| "insert_index n kv (x # xs) = (case index_key (fst x) of
       Some m \<Rightarrow> if m < n then x # insert_index n kv xs else kv # x # xs
     | None \<Rightarrow> kv # x # xs)"

definition table_put :: "string \<Rightarrow> string \<Rightarrow> (string \<times> string) list \<Rightarrow> (string \<times> string) list" where
  "table_put k v table =
     (if k \<in> fst ` set table then map (\<lambda>x. if fst x = k then (k, v) else x) table
      else case index_key k of Some n \<Rightarrow> insert_index n (k, v) table | None \<Rightarrow> table @ [(k, v)])"

text \<open>
  \<open>setReplacement(channel, find, replace)\<close>. The table of the guild is created in any
  case, and written to the file only when a rule is stored.
\<close>

definition setReplacement :: "channel \<Rightarrow> string option \<Rightarrow> string option \<Rightarrow> action" where
  "setReplacement ch find_arg replace_arg w =
     (let g = home_id ch;
          prefix = prefix_of (config w) g;
          table = (case replacements (config w) g of None \<Rightarrow> [] | Some t \<Rightarrow> t);
          w1 = w\<lparr>config := (config w)\<lparr>replacements := (replacements (config w))(g \<mapsto> table)\<rparr>\<rparr>;
          find = (case find_arg of None \<Rightarrow> [] | Some v \<Rightarrow> v);
          val = (case replace_arg of None \<Rightarrow> [] | Some v \<Rightarrow> v)
      in if find \<noteq> [] \<and> val \<noteq> [] then
           ([Send (channel_id ch) (Text (''**Replacing `'' @ find @ ''` with `'' @ val @ ''`!**''))],
            updateConfig (w1\<lparr>config := (config w1)\<lparr>replacements :=
               (replacements (config w1))(g \<mapsto> table_put find val table)\<rparr>\<rparr>))
         else if find \<noteq> [] then
           (case map_of table find of
              Some r \<Rightarrow>
                if r \<noteq> [] then
                  ([Send (channel_id ch) (Text (''**`'' @ find @ ''` is replaced with `'' @ r
                      @ ''`**''))], w1)
                else
                  ([Send (channel_id ch) (Text (''**Missing `replace` argument! `'' @ prefix
                      @ ''repost replace '' @ find @ '' <REPLACE>`**''))], w1)
            | None \<Rightarrow>
                ([Send (channel_id ch) (Text (''**Missing `replace` argument! `'' @ prefix
                    @ ''repost replace '' @ find @ '' <REPLACE>`**''))], w1))
         else
           ([Send (channel_id ch) (Text (''**Missing `find` and `replace` arguments! `''
               @ prefix @ ''repost replace <FIND> <REPLACE>`**''))], w1))"

section \<open>The platform client, the library and the language runtime\<close>

text \<open>
  The program is written against members of the client library that no single
  generation of the library has together. Which of them the library at hand provides
  is a parameter: whether a fetched collection has the method \<open>array\<close>; whether
  \<open>channel.type\<close> is the name of the kind, a string, or a number; whether the client
  emits the event \<open>message\<close>; whether \<open>EmbedBuilder\<close> is a constructor; whether
  \<open>MessageEmbed\<close> is a constructor and embeds take \<open>addField\<close> and the positional
  \<open>setFooter\<close> and \<open>setAuthor\<close>; and whether an attachment has the property \<open>filesize\<close>.
\<close>

record library =
  collection_array :: bool
  type_names :: bool
  message_event :: bool
  embed_builder :: bool
  legacy_embeds :: bool
  attachment_filesize :: bool

text \<open>
  What the program calls but does not contain. The history of every channel
  (\<open>all_messages\<close>, oldest first), and whether a fetched collection lists the newest
  message first (\<open>newest_first\<close>, the order that \<open>sendMessages\<close> undoes by reversing
  the collection) or the oldest; the pins of a channel as the platform returns them;
  which calls are rejected (\<open>readable\<close>, \<open>pins_of\<close> being \<open>None\<close>, \<open>delivers\<close>,
  \<open>may_send\<close>); the emojis of the client's cache; the outcome of looking for the bot's
  webhook in a channel; the channel and the guild that \<open>channels.fetch\<close> and
  \<open>guilds.fetch\<close> resolve a word to; the channels of the client's cache; the owner of a
  guild, if \<open>fetchOwner\<close> delivers one; the bot's own user; the library; and of the
  language runtime whether \<open>new RegExp(find, "g")\<close> accepts \<open>find\<close> as a pattern, and
  \<open>String.replace\<close> with that expression, \<open>regex_replace find value text\<close>.
\<close>

datatype hook_lookup = Cannot_read | Owned snowflake | Created snowflake | Create_failed

record platform =
  all_messages :: "message list"
  newest_first :: bool
  readable :: "snowflake \<Rightarrow> bool"
  pins_of :: "snowflake \<Rightarrow> message list option"
  delivers :: "snowflake \<Rightarrow> payload \<Rightarrow> bool"
  may_send :: "snowflake \<Rightarrow> bool"
  known_emoji :: "snowflake \<Rightarrow> bool"
  hook_of :: "snowflake \<Rightarrow> hook_lookup"
  channel_of :: "string \<Rightarrow> channel option"
  guild_of :: "string \<Rightarrow> guild_info option"
  cached_channels :: "channel list"
  owner_of :: "snowflake \<Rightarrow> user option"
  bot_user :: user
  lib :: library
  regex_valid :: "string \<Rightarrow> bool"
  regex_replace :: "string \<Rightarrow> string \<Rightarrow> string \<Rightarrow> string"

text \<open>
  \<open>channel.messages.fetch({ limit, after })\<close>: the \<open>limit\<close> messages of the channel that
  follow the cursor most closely, in the order the platform lists them; \<open>None\<close> when the
  call is rejected.
\<close>

definition after_cursor :: "platform \<Rightarrow> snowflake \<Rightarrow> snowflake \<Rightarrow> message list" where
  "after_cursor p c a =
     filter (\<lambda>x. channel_id (message_channel x) = c \<and> a < message_id x) (all_messages p)"

definition fetch :: "platform \<Rightarrow> channel \<Rightarrow> nat \<Rightarrow> snowflake \<Rightarrow> message list option" where
  "fetch p c lim a =
     (if readable p (channel_id c)
      then Some ((if newest_first p then rev else id) (take lim (after_cursor p (channel_id c) a)))
      else None)"

text \<open>
  \<open>text.replace(new RegExp(find, "g"), value)\<close> when \<open>find\<close> has no regular-expression
  operator and \<open>value\<close> no \<open>$\<close>: every occurrence of \<open>find\<close>, found from left to right
  without overlap, is replaced; the empty \<open>find\<close> matches before every character and
  at the end.
\<close>

fun replaceLiteral :: "string \<Rightarrow> string \<Rightarrow> string \<Rightarrow> string" where
  "replaceLiteral [] r [] = r"
| "replaceLiteral [] r (c # cs) = r @ c # replaceLiteral [] r cs"
| "replaceLiteral (a # f) r [] = []"
| "replaceLiteral (a # f) r (c # cs) =
     (if startsWith (c # cs) (a # f) then r @ replaceLiteral (a # f) r (drop (length f) cs)
      else c # replaceLiteral (a # f) r cs)"

definition regex_operators :: string where
  "regex_operators = CHR 0x5C # ''^$.|?*+()[]{}''"

definition literal_rule :: "string \<times> string \<Rightarrow> bool" where
  "literal_rule fr =
     (list_all (\<lambda>c. c \<notin> set regex_operators) (fst fr) \<and> CHR ''$'' \<notin> set (snd fr))"

text \<open>
  A runtime that does on literal rules what the language defines: a find without
  operators is a pattern, and it is replaced literally.
\<close>

definition literal_runtime :: "platform \<Rightarrow> bool" where
  "literal_runtime p =
     (\<forall>f r s. literal_rule (f, r) \<longrightarrow>
        regex_valid p f \<and> regex_replace p f r s = replaceLiteral f r s)"

section \<open>Rendering one message\<close>

text \<open>
  The loop of \<open>replaceAll\<close>: \<open>new RegExp(find, "g")\<close> raises a \<open>SyntaxError\<close> when the
  stored find is not a pattern.
\<close>

fun apply_rules :: "platform \<Rightarrow> (string \<times> string) list \<Rightarrow> string \<Rightarrow> error + string" where
  "apply_rules p [] replaced = Inr replaced"
| "apply_rules p ((pattern, val) # rest) replaced =
     (if regex_valid p pattern then apply_rules p rest (regex_replace p pattern val replaced)
      else Inl SyntaxError)"

text \<open>\<open>replaceAll(channel, str)\<close>\<close>

definition replaceAll :: "platform \<Rightarrow> config \<Rightarrow> channel \<Rightarrow> string \<Rightarrow> error + string" where
  "replaceAll p cfg ch str = (case replacements cfg (home_id ch) of
       Some table \<Rightarrow> apply_rules p table str
     | None \<Rightarrow> Inr str)"

text \<open>
  \<open>niceName(to, from, user)\<close>. \<open>member_name\<close> is the display name of the member that
  \<open>guild.members.fetch\<close> returns, if it returns one; the tags flag is read after that
  call. A text channel belongs to a guild.
\<close>

definition niceName :: "channel \<Rightarrow> channel \<Rightarrow> user \<Rightarrow> world \<Rightarrow> string \<times> world" where
  "niceName to from u w =
     (let g = (if kind from = Text_kind
               then (case guild from of Some g \<Rightarrow> g | None \<Rightarrow> channel_id to)
               else channel_id to)
      in if truthy (nicknames (config w) g) \<and> kind from = Text_kind then
           (let w' = await w
            in (case member_name u of
                  Some d \<Rightarrow> d
                | None \<Rightarrow> if truthy (tags (config w') g) then user_tag u else username u,
                w'))
         else (if truthy (tags (config w) g) then user_tag u else username u, w))"

text \<open>The loop over the reactions in \<open>send\<close>, with its \<open>break\<close>.\<close>

fun react_each :: "platform \<Rightarrow> channel \<Rightarrow> payload \<Rightarrow> reaction list \<Rightarrow> action" where
  "react_each p ch pl [] w = ([], w)"
| "react_each p ch pl (r # rs) w =
     (if inactive (config w) ch None then ([], w)
      else if (case emoji_id r of None \<Rightarrow> True | Some e \<Rightarrow> known_emoji p e) then
        (case react_each p ch pl rs (await w) of
           (es, w') \<Rightarrow> (React (channel_id ch) pl r # es, w'))
      else react_each p ch pl rs w)"

text \<open>\<open>send(channel, content, reactions)\<close>\<close>

definition send :: "platform \<Rightarrow> channel \<Rightarrow> payload \<Rightarrow> reaction list \<Rightarrow> action" where
  "send p ch pl rs w =
     (if inactive (config w) ch None then ([], w)
      else if delivers p (channel_id ch) pl \<and> rs \<noteq> [] then
        (case react_each p ch pl rs (await w) of (es, w') \<Rightarrow> (Send (channel_id ch) pl # es, w'))
      else ([Send (channel_id ch) pl], await w))"

text \<open>
  \<open>replaceEmbedText(embed, channel)\<close>: the copy is made with \<open>EmbedBuilder\<close>; then the
  author, the description, the footer and the title are rewritten in this order, each
  when it is truthy.
\<close>

definition rewrite_field ::
  "platform \<Rightarrow> config \<Rightarrow> channel \<Rightarrow> bool \<Rightarrow> string option \<Rightarrow> error + string option" where
  "rewrite_field p cfg ch when_empty field = (case field of
       None \<Rightarrow> Inr None
     | Some s \<Rightarrow> if s = [] \<and> \<not> when_empty then Inr (Some s)
                 else (case replaceAll p cfg ch s of Inl e \<Rightarrow> Inl e | Inr t \<Rightarrow> Inr (Some t)))"

definition replaceEmbedText :: "platform \<Rightarrow> config \<Rightarrow> embed \<Rightarrow> channel \<Rightarrow> error + embed" where
  "replaceEmbedText p cfg e ch =
     (if \<not> embed_builder (lib p) then Inl TypeError
      else case rewrite_field p cfg ch True (embed_author e) of
        Inl x \<Rightarrow> Inl x
      | Inr a \<Rightarrow> (case rewrite_field p cfg ch False (embed_description e) of
          Inl x \<Rightarrow> Inl x
        | Inr d \<Rightarrow> (case rewrite_field p cfg ch True (embed_footer e) of
            Inl x \<Rightarrow> Inl x
          | Inr f \<Rightarrow> (case rewrite_field p cfg ch False (embed_title e) of
              Inl x \<Rightarrow> Inl x
            | Inr t \<Rightarrow> Inr (e\<lparr>embed_author := a, embed_description := d,
                               embed_footer := f, embed_title := t\<rparr>)))))"

definition systemMessages :: "message_type \<Rightarrow> string" where
  "systemMessages t = (case t of
       RecipientAdd \<Rightarrow> '' added someone to the group.''
     | RecipientRemove \<Rightarrow> '' removed someone from the group.''
     | Call \<Rightarrow> '' started a call.''
     | ChannelNameChange \<Rightarrow> '' changed the name of this channel.''
     | ChannelIconChange \<Rightarrow> '' changed the icon of this channel.''
     | ChannelPinnedMessage \<Rightarrow> '' pinned a message to this channel.''
     | UserJoin \<Rightarrow> '' just joined.''
     | _ \<Rightarrow> ''undefined'')"

text \<open>
  The head of \<open>sendMessage\<close>: the line of a system message, or the author's name when
  the author differs from the one handed in, as a renaming of the webhook or as a line
  of its own. The name is looked up, then rewritten by \<open>replaceAll\<close>, then sent with
  \<open>channel.send\<close>.
\<close>

definition author_line ::
  "platform \<Rightarrow> message \<Rightarrow> channel \<Rightarrow> snowflake option \<Rightarrow> snowflake option \<Rightarrow> task" where
  "author_line p m ch webhook auth w =
     (if message_type m \<noteq> Default then
        (case niceName ch (message_channel m) (author m) w of (n, w1) \<Rightarrow>
           (case replaceAll p (config w1) ch n of
              Inl e \<Rightarrow> raise e w1
            | Inr s \<Rightarrow> returned (call_await (Send (channel_id ch)
                         (Text (''**'' @ s @ systemMessages (message_type m) @ ''**''))) w1)))
      else if Some (user_id (author m)) \<noteq> auth then
        (case niceName ch (message_channel m) (author m) w of (n, w1) \<Rightarrow>
           (case replaceAll p (config w1) ch n of
              Inl e \<Rightarrow> raise e w1
            | Inr s \<Rightarrow>
                (case webhook of
                   Some h \<Rightarrow> returned (call_await (Webhook_edit h s (avatar_url (author m))) w1)
                 | None \<Rightarrow> returned (call_await (Send (channel_id ch)
                              (Text (''**'' @ s @ ''**''))) w1))))
      else (None, [], w))"

text \<open>The text of the message, rewritten before \<open>send\<close> is entered.\<close>

definition send_content :: "platform \<Rightarrow> message \<Rightarrow> channel \<Rightarrow> task" where
  "send_content p m ch w =
     (if content m \<noteq> [] then
        (case replaceAll p (config w) ch (content m) of
           Inl e \<Rightarrow> raise e w
         | Inr s \<Rightarrow> returned (send p ch (Text s) (reactions m) w))
      else (None, [], w))"

text \<open>
  What is sent for an attachment: \<open>attachment.filesize > 8000000 ? attachment.url :
  { files: [attachment.url] }\<close>. Where the attachment has no property \<open>filesize\<close> the
  comparison is with \<open>undefined\<close> and fails.
\<close>

definition attachment_payload :: "platform \<Rightarrow> attachment \<Rightarrow> payload" where
  "attachment_payload p a =
     (if attachment_filesize (lib p) \<and> byte_size a > 8000000 then Text (attachment_url a)
      else Files [attachment_url a])"

fun send_attachments :: "platform \<Rightarrow> channel \<Rightarrow> attachment list \<Rightarrow> reaction list \<Rightarrow> action" where
  "send_attachments p ch [] rs w = ([], w)"
| "send_attachments p ch (a # as) rs w =
     (case send p ch (attachment_payload p a) rs w of (es, w1) \<Rightarrow>
        (case send_attachments p ch as rs w1 of (es', w2) \<Rightarrow> (es @ es', w2)))"

fun send_embeds :: "platform \<Rightarrow> channel \<Rightarrow> embed list \<Rightarrow> reaction list \<Rightarrow> task" where
  "send_embeds p ch [] rs w = (None, [], w)"
| "send_embeds p ch (e # es) rs w =
     (if embed_rich e then
        (case replaceEmbedText p (config w) e ch of
           Inl x \<Rightarrow> raise x w
         | Inr e' \<Rightarrow>
             (case send p ch (Rich e') rs w of (xs, w1) \<Rightarrow>
                (case send_embeds p ch es rs w1 of (err, ys, w2) \<Rightarrow> (err, xs @ ys, w2))))
      else send_embeds p ch es rs w)"

text \<open>\<open>sendMessage(message, channel, webhook, author)\<close>\<close>

definition sendMessage ::
  "platform \<Rightarrow> message \<Rightarrow> channel \<Rightarrow> snowflake option \<Rightarrow> snowflake option \<Rightarrow> task" where
  "sendMessage p m ch webhook auth w =
     (if inactive (config w) ch (Some (message_channel m)) then (None, [], w)
      else after (author_line p m ch webhook auth w)
          (\<lambda>w1. after (send_content p m ch w1)
          (\<lambda>w2. after (returned (send_attachments p ch (attachments m) (reactions m) w2))
                   (send_embeds p ch (embeds m) (reactions m)))))"

section \<open>The repost engine\<close>

text \<open>The loop of \<open>sendMessages\<close> over the reversed collection, with its \<open>break\<close>.\<close>

fun send_each ::
  "platform \<Rightarrow> message list \<Rightarrow> channel \<Rightarrow> snowflake option \<Rightarrow> snowflake option \<Rightarrow> task" where
  "send_each p [] ch webhook auth w = (None, [], w)"
| "send_each p (m # ms) ch webhook auth w =
     (if inactive (config w) ch None then (None, [], w)
      else (case sendMessage p m ch webhook auth w of
              (Some e, es, w1) \<Rightarrow> (Some e, es, w1)
            | (None, es, w1) \<Rightarrow>
                (case send_each p ms ch webhook (Some (user_id (author m))) w1 of
                   (err, es', w2) \<Rightarrow> (err, es @ es', w2))))"

text \<open>
  \<open>sendMessages(messages, channel, webhook, author)\<close>; the collection is \<open>None\<close> when
  the fetch that should have produced it was rejected. A collection that is not empty
  is turned into an array by its method \<open>array\<close>, which is then reversed.
\<close>

definition sendMessages ::
  "platform \<Rightarrow> message list option \<Rightarrow> channel \<Rightarrow> snowflake option \<Rightarrow> snowflake option
     \<Rightarrow> task" where
  "sendMessages p messages ch webhook auth w =
     (if inactive (config w) ch None then (None, [], w)
      else (case messages of
              None \<Rightarrow> (None, [], w)
            | Some [] \<Rightarrow> (None, [], w)
            | Some (x # xs) \<Rightarrow>
                if collection_array (lib p) then send_each p (rev (x # xs)) ch webhook auth w
                else raise TypeError w))"

lemma fetch_subset:
  assumes "fetch p c lim a = Some ms"
  shows "set ms \<subseteq> set (after_cursor p (channel_id c) a)"
proof -
  have "set ms = set (take lim (after_cursor p (channel_id c) a))"
    using assms by (cases "newest_first p") (auto simp: fetch_def split: if_splits)
  then show ?thesis using set_take_subset by fastforce
qed

lemma after_cursor_shrinks:
  assumes "y \<in> set (after_cursor p c a)"
  shows "length (after_cursor p (channel_id (message_channel y)) (message_id y))
           < length (after_cursor p c a)"
proof -
  from assms have c: "channel_id (message_channel y) = c" and lt: "a < message_id y"
    by (auto simp: after_cursor_def)
  let ?P = "\<lambda>x. channel_id (message_channel x) = c \<and> message_id y < message_id x"
  have "after_cursor p c (message_id y) = filter ?P (after_cursor p c a)"
    using lt by (auto simp: after_cursor_def intro: filter_cong)
  moreover have "length (filter ?P (after_cursor p c a)) < length (after_cursor p c a)"
    by (rule length_filter_less[OF assms]) simp
  ultimately show ?thesis using c by simp
qed

lemma fetch_last_shrinks:
  assumes "fetch p c lim a = Some (x # xs)"
  shows "length (after_cursor p (channel_id (message_channel (last (x # xs))))
                   (message_id (last (x # xs))))
           < length (after_cursor p (channel_id c) a)"
proof -
  have "last (x # xs) \<in> set (x # xs)" by (rule last_in_set) simp
  with fetch_subset[OF assms]
  have "last (x # xs) \<in> set (after_cursor p (channel_id c) a)" by blast
  then show ?thesis by (rule after_cursor_shrinks)
qed

text \<open>
  \<open>fetchMessages(message, channel, webhook, author)\<close>. The recursion ends because the
  cursor moves to a message of the same channel with a larger identifier.
\<close>

function fetchMessages ::
  "platform \<Rightarrow> message \<Rightarrow> channel \<Rightarrow> snowflake option \<Rightarrow> snowflake option \<Rightarrow> task" where
  "fetchMessages p m ch webhook auth w =
     (if inactive (config w) ch (Some (message_channel m)) then (None, [], w)
      else
        (let call = Fetch (channel_id (message_channel m)) 100 (message_id m);
             messages = fetch p (message_channel m) 100 (message_id m);
             w1 = await w;
             (es0, w2) = (case messages of
                 None \<Rightarrow> call_await (Send (channel_id ch) (Text ''**Couldn't fetch messages!**'')) w1
               | Some ms \<Rightarrow> ([], w1))
         in if inactive (config w2) ch (Some (message_channel m)) then (None, call # es0, w2)
            else (case messages of
                Some (x # xs) \<Rightarrow>
                  (case sendMessages p messages ch webhook auth w2 of
                     (Some e, es1, w3) \<Rightarrow> (Some e, call # es0 @ es1, w3)
                   | (None, es1, w3) \<Rightarrow>
                       (case fetchMessages p (last (x # xs)) ch webhook
                               (Some (user_id (author (last (x # xs))))) w3 of
                          (err, es2, w4) \<Rightarrow> (err, call # es0 @ es1 @ es2, w4)))
              | _ \<Rightarrow>
                  (case call_await (Send (channel_id ch) (Text ''**Repost Complete!**'')) w2 of
                     (es3, w3) \<Rightarrow> (None, call # es0 @ es3, w3)))))"
  by pat_completeness auto

termination fetchMessages
  apply (relation "measure (\<lambda>(p, m, ch, webhook, auth, w).
         length (after_cursor p (channel_id (message_channel m)) (message_id m)))")
   apply simp
  apply (simp del: last.simps)
  apply (rule fetch_last_shrinks)
  apply (erule sym)
  done

declare fetchMessages.simps [simp del]

text \<open>
  \<open>sendInfo(to, from)\<close>. The card is made with \<open>EmbedBuilder\<close>. For a text channel its
  fields name the guild, whose owner is fetched and named with \<open>niceName\<close>, and count the
  channels of the guild by \<open>capitalizeFirst(channel.type)\<close>, which needs a string (the
  channel itself is one of them). A call of \<open>fetchOwner\<close> that is rejected is not caught.
  The card is sent at the end.
\<close>

definition sendInfo :: "platform \<Rightarrow> channel \<Rightarrow> channel \<Rightarrow> task" where
  "sendInfo p to from w =
     (if \<not> embed_builder (lib p) then raise TypeError w
      else if kind from = Text_kind then
        (case guild from of
           None \<Rightarrow> raise TypeError w
         | Some g \<Rightarrow>
             (case owner_of p g of
                None \<Rightarrow> raise Rejected (await w)
              | Some owner \<Rightarrow>
                  (case niceName to from owner (await w) of (n, w1) \<Rightarrow>
                     if \<not> type_names (lib p) then raise TypeError w1
                     else returned (call_await
                            (Send (channel_id to) (Info_card (channel_id from))) w1))))
      else returned (call_await (Send (channel_id to) (Info_card (channel_id from))) w))"

text \<open>
  \<open>fetchWebhook(channel)\<close>: the bot's webhook of the channel, created when there is none;
  nothing when the webhooks cannot be read or the creation is rejected.
\<close>

definition fetchWebhook :: "platform \<Rightarrow> channel \<Rightarrow> world \<Rightarrow> snowflake option \<times> event list \<times> world" where
  "fetchWebhook p ch w =
     (let w1 = await w
      in case hook_of p (channel_id ch) of
           Cannot_read \<Rightarrow>
             (case call_await (Send (channel_id ch) (Text ''**Can't read webhooks!**'')) w1 of
                (es, w2) \<Rightarrow> (None, es, w2))
         | Owned h \<Rightarrow> (Some h, [], w1)
         | Created h \<Rightarrow> (Some h, [], await w1)
         | Create_failed \<Rightarrow> (None, [], await w1))"

text \<open>The names of the kinds, as \<open>channel.type\<close> has them where it is a string.\<close>

definition kind_name :: "channel_kind \<Rightarrow> string" where
  "kind_name k = (case k of
       Text_kind \<Rightarrow> ''text'' | Dm_kind \<Rightarrow> ''dm'' | Group_kind \<Rightarrow> ''group''
     | Voice_kind \<Rightarrow> ''voice'' | Category_kind \<Rightarrow> ''category'' | News_kind \<Rightarrow> ''news''
     | Store_kind \<Rightarrow> ''store'' | Unknown_kind \<Rightarrow> ''unknown'')"

text \<open>A channel object printed in a text: its mention.\<close>

definition mention :: "channel \<Rightarrow> string" where
  "mention c = ''<#'' @ decimal (channel_id c) @ ''>''"

text \<open>
  The one-time copy at the end of \<open>repost\<close>, from the information card on: the pins
  when they are enabled for the guild of the destination, then the history.
\<close>

definition copy_pins :: "platform \<Rightarrow> channel \<Rightarrow> channel \<Rightarrow> snowflake option \<Rightarrow> task" where
  "copy_pins p to from hook w =
     (case call_await (Send (channel_id to) (Text ''__**Pins**__'')) w of (es1, w1) \<Rightarrow>
      (case (case pins_of p (channel_id from) of
               None \<Rightarrow> call_await (Send (channel_id to) (Text ''**Can't read pins!**'')) (await w1)
             | Some ps \<Rightarrow> ([], await w1)) of (es2, w2) \<Rightarrow>
       (case sendMessages p (pins_of p (channel_id from)) to hook None w2 of (err, es3, w3) \<Rightarrow>
          (err, es1 @ Fetch_pinned (channel_id from) # es2 @ es3, w3))))"

definition copy_messages :: "platform \<Rightarrow> channel \<Rightarrow> channel \<Rightarrow> snowflake option \<Rightarrow> task" where
  "copy_messages p to from hook w =
     (case call_await (Send (channel_id to) (Text ''__**Messages**__'')) w of (es1, w1) \<Rightarrow>
      (case (case fetch p from 1 0 of
               None \<Rightarrow> call_await (Send (channel_id to) (Text ''**Can't read messages!**'')) (await w1)
             | Some ms \<Rightarrow> ([], await w1)) of (es2, w2) \<Rightarrow>
       (case fetch p from 1 0 of
          Some (first # rest) \<Rightarrow>
            after (after (None, es1 @ Fetch (channel_id from) 1 0 # es2, w2)
                     (sendMessage p first to hook None))
              (fetchMessages p first to hook (Some (user_id (author first))))
        | _ \<Rightarrow>
            (case call_await (Send (channel_id to) (Text ''**Repost Complete!**'')) w2 of
               (es3, w3) \<Rightarrow> (None, es1 @ Fetch (channel_id from) 1 0 # es2 @ es3, w3)))))"

definition copy_history :: "platform \<Rightarrow> channel \<Rightarrow> channel \<Rightarrow> bool \<Rightarrow> task" where
  "copy_history p to from webhook w =
     after (sendInfo p to from w)
       (\<lambda>w1. if inactive (config w1) to (Some from) then (None, [], w1)
          else (case (if webhook then fetchWebhook p to w1 else (None, [], w1)) of
            (hook, es2, w2) \<Rightarrow>
              (case guild to of
                 None \<Rightarrow> (Some TypeError, es2, w2)
               | Some g \<Rightarrow>
                   after (after (None, es2, w2)
                     (\<lambda>w2. if truthy (pins (config w2) g) then copy_pins p to from hook w2
                            else (None, [], w2)))
                     (\<lambda>w3. if inactive (config w3) to (Some from) then (None, [], w3)
                            else copy_messages p to from hook w3))))"

text \<open>
  \<open>repost(id, message, webhook, direction, live)\<close> from the point where \<open>channel\<close> is a
  channel: the guards and the copy. \<open>shown\<close> is what \<open>id\<close> prints as. The test
  \<open>channel.type.match\<close> needs a string. As in \<open>stop\<close>, the presence line of
  \<open>updateStatus\<close> is left out.
\<close>

definition repost_channel ::
  "platform \<Rightarrow> string \<Rightarrow> channel \<Rightarrow> message \<Rightarrow> bool \<Rightarrow> bool \<Rightarrow> bool \<Rightarrow> task" where
  "repost_channel p shown channel message webhook direction is_live w =
     (let here = message_channel message;
          dir = (if direction then ''from'' else ''to'');
          label = (if channel_name channel \<noteq> [] then channel_name channel else shown);
          reply = (\<lambda>t. returned (call_await (Send (channel_id here) (Text t)) w))
      in if channel_id channel = channel_id here then
           reply (''**Can't repost '' @ dir @ '' the same channel!**'')
         else if \<not> type_names (lib p) then raise TypeError w
         else if \<not> matchesAny [''text'', ''group'', ''dm''] (kind_name (kind channel)) then
           reply (''**Can't repost '' @ dir @ '' '' @ kind_name (kind channel) @ '' channels!**'')
         else if webhook \<and> kind (if direction then here else channel) = Dm_kind then
           reply ''**Can't create webhooks on DM channels!**''
         else if kind channel = Text_kind \<and> \<not> direction \<and> \<not> may_send p (channel_id channel) then
           reply (''**Can't repost to `'' @ label @ ''` without permission!**'')
         else
           (let to = (if direction then here else channel);
                from = (if direction then channel else here);
                w1 = updateConfig (w\<lparr>config := (config w)\<lparr>active :=
                       (active (config w))(channel_id to \<mapsto> True, channel_id from \<mapsto> True)\<rparr>\<rparr>)
            in after (returned (call_await (Send (channel_id here) (Text (''**Reposting''
                      @ (if is_live then '' live '' else '' '') @ dir @ '' `''
                      @ label @ ''`!**''))) w1))
                 (\<lambda>w2. if is_live then
                     (None, [], updateConfig (w2\<lparr>config := (config w2)\<lparr>live :=
                        (live (config w2))(channel_id from \<mapsto>
                           \<lparr>live_channel = channel_id to, live_hook = webhook\<rparr>)\<rparr>\<rparr>))
                   else copy_history p to from webhook w2)))"

text \<open>
  The loop over the channels of a guild, with its \<open>break\<close>: each is marked active and
  reposted in turn.
\<close>

fun repost_each ::
  "platform \<Rightarrow> channel list \<Rightarrow> message \<Rightarrow> bool \<Rightarrow> bool \<Rightarrow> bool \<Rightarrow> task" where
  "repost_each p [] message webhook direction is_live w = (None, [], w)"
| "repost_each p (match # rest) message webhook direction is_live w =
     (if inactive (config w) (message_channel message) None then (None, [], w)
      else (case repost_channel p (mention match) match message webhook direction is_live
                   (updateConfig (w\<lparr>config := (config w)\<lparr>active :=
                      (active (config w))(channel_id match \<mapsto> True)\<rparr>\<rparr>)) of
              (Some e, es, w1) \<Rightarrow> (Some e, es, w1)
            | (None, es, w1) \<Rightarrow>
                (case repost_each p rest message webhook direction is_live w1 of
                   (err, es', w2) \<Rightarrow> (err, es @ es', w2))))"

text \<open>
  The loop over several channels of the name asked for: a card for each, made with
  \<open>MessageEmbed\<close> and \<open>capitalizeFirst(match.type)\<close>, and a reaction put on the card; the
  card that was not delivered cannot be reacted to. What a later reaction of the user
  starts is not part of this call.
\<close>

definition confirm :: reaction where
  "confirm = \<lparr>emoji_id = None, emoji_name = check_mark\<rparr>"

fun offer_each :: "platform \<Rightarrow> channel list \<Rightarrow> channel \<Rightarrow> task" where
  "offer_each p [] here w = (None, [], w)"
| "offer_each p (match # rest) here w =
     (if legacy_embeds (lib p) \<and> type_names (lib p) then
        (case call_await (Send (channel_id here) (Match_card (channel_id match))) w of
           (es, w1) \<Rightarrow>
             if delivers p (channel_id here) (Match_card (channel_id match)) then
               (case call_await (React (channel_id here) (Match_card (channel_id match))
                        confirm) w1 of
                  (es', w2) \<Rightarrow>
                    (case offer_each p rest here w2 of
                       (err, es'', w3) \<Rightarrow> (err, es @ es' @ es'', w3)))
             else (Some TypeError, es, w1))
      else raise TypeError w)"

text \<open>The channels of a guild in the client's cache.\<close>

definition guild_cache :: "platform \<Rightarrow> snowflake \<Rightarrow> channel list" where
  "guild_cache p g = filter (\<lambda>c. guild c = Some g) (cached_channels p)"

text \<open>
  \<open>repost\<close> when the word \<open>id\<close> is not a channel, after \<open>guilds.fetch\<close>: all channels of
  the guild of that identifier, else the first channel mentioned in the message, else
  the channels of that name (a channel without a name has the empty name here and
  matches no word).
\<close>

definition repost_search ::
  "platform \<Rightarrow> string \<Rightarrow> message \<Rightarrow> bool \<Rightarrow> bool \<Rightarrow> bool \<Rightarrow> task" where
  "repost_search p word message webhook direction is_live w =
     (let here = message_channel message;
          dir = (if direction then ''from'' else ''to'')
      in case guild_of p word of
           Some g \<Rightarrow>
             after (returned (call_await (Send (channel_id here) (Text (''**Reposting''
                      @ (if is_live then '' live '' else '' '') @ dir @ '' `''
                      @ (if guild_name g \<noteq> [] then guild_name g else word) @ ''`!**'')))
                      (w\<lparr>config := (config w)\<lparr>active :=
                         (active (config w))(channel_id here \<mapsto> True)\<rparr>\<rparr>)))
               (repost_each p (guild_cache p (guild_id g)) message webhook direction is_live)
         | None \<Rightarrow>
             (case mentions message of
                c # cs \<Rightarrow> repost_channel p (mention c) c message webhook direction is_live w
              | [] \<Rightarrow>
                 (case filter (\<lambda>c. word \<noteq> [] \<and> channel_name c = word) (cached_channels p) of
                    [] \<Rightarrow> returned (call_await (Send (channel_id here)
                            (Text (''**Couldn't repost '' @ dir @ '' `'' @ word @ ''`!**''))) w)
                  | [c] \<Rightarrow> repost_channel p (mention c) c message webhook direction is_live w
                  | c # d # cs \<Rightarrow>
                      after (returned (call_await (Send (channel_id here)
                               (Text (''**Found '' @ decimal (length (c # d # cs))
                                  @ '' channels!**''))) w))
                        (offer_each p (c # d # cs) here))))"

text \<open>
  \<open>repost(id, message, webhook, direction, live)\<close>. \<open>id\<close> is a channel object, as in the
  calls of \<open>repost\<close> to itself, or the word typed in the command, which
  \<open>channels.fetch\<close> and then \<open>guilds.fetch\<close> are asked for.
\<close>

datatype target = Channel_object channel | Typed string

definition repost ::
  "platform \<Rightarrow> target \<Rightarrow> message \<Rightarrow> bool \<Rightarrow> bool \<Rightarrow> bool \<Rightarrow> task" where
  "repost p target message webhook direction is_live w =
     (case target of
        Channel_object c \<Rightarrow> repost_channel p (mention c) c message webhook direction is_live w
      | Typed word \<Rightarrow>
          (case channel_of p word of
             Some c \<Rightarrow> repost_channel p word c message webhook direction is_live (await w)
           | None \<Rightarrow> repost_search p word message webhook direction is_live (await (await w))))"

section \<open>Live forwarding, the listing commands and the message handler\<close>

text \<open>
  The rule that \<open>repostLive\<close> finds for a message: the one of its channel, else the one
  of its guild; reading the guild of a message that has none raises.
\<close>

definition live_lookup :: "config \<Rightarrow> message \<Rightarrow> error + live_rule option" where
  "live_lookup cfg m = (case live cfg (channel_id (message_channel m)) of
       Some r \<Rightarrow> Inr (Some r)
     | None \<Rightarrow> (case guild (message_channel m) of
                  None \<Rightarrow> Inl TypeError
                | Some g \<Rightarrow> Inr (live cfg g)))"

text \<open>
  The rest of \<open>repostLive\<close> once a rule is found. When the destination does not
  resolve, the first use of the missing channel raises: in \<open>fetchWebhook\<close>, or in
  \<open>sendMessage\<close> after the name of the author was looked up; only a message of an
  inactive source, without webhook, returns before that.
\<close>

definition forward_live :: "platform \<Rightarrow> message \<Rightarrow> live_rule \<Rightarrow> task" where
  "forward_live p m r w =
     (let w1 = await w
      in case channel_of p (decimal (live_channel r)) of
           None \<Rightarrow>
             if live_hook r then (Some TypeError, [], w1)
             else if \<not> truthy (active (config w1) (channel_id (message_channel m)))
             then (None, [], w1)
             else (case guild (message_channel m) of
                     Some g \<Rightarrow>
                       if kind (message_channel m) = Text_kind \<and> truthy (nicknames (config w1) g)
                       then (Some TypeError, [], await w1) else (Some TypeError, [], w1)
                   | None \<Rightarrow> (Some TypeError, [], w1))
         | Some ch \<Rightarrow>
             (case (if live_hook r then fetchWebhook p ch w1 else (None, [], w1)) of
                (hook, es1, w2) \<Rightarrow> after (None, es1, w2) (sendMessage p m ch hook None)))"

definition repostLive :: "platform \<Rightarrow> message \<Rightarrow> task" where
  "repostLive p m w = (case live_lookup (config w) m of
       Inl e \<Rightarrow> (Some e, [], w)
     | Inr None \<Rightarrow> (None, [], w)
     | Inr (Some r) \<Rightarrow> forward_live p m r w)"

text \<open>
  \<open>sendCommands(channel)\<close>: the card is made with \<open>EmbedBuilder\<close> and filled with the
  positional \<open>setFooter\<close> and \<open>setAuthor\<close> and with \<open>addField\<close>; the bot is named with
  \<open>niceName\<close>; the send of the card is not awaited.
\<close>

definition sendCommands :: "platform \<Rightarrow> channel \<Rightarrow> task" where
  "sendCommands p ch w =
     (if embed_builder (lib p) \<and> legacy_embeds (lib p) then
        (case niceName ch ch (bot_user p) w of
           (n, w1) \<Rightarrow> (None, [Send (channel_id ch) (Commands_card (channel_id ch))], w1))
      else raise TypeError w)"

text \<open>
  \<open>sendReplacements(channel, id)\<close>: the number of rules, then each rule with a reaction
  on it by which the user can delete the rule later. The loop goes over the finds that
  the table had at its start and reads each value when its turn comes; a find deleted
  in between is passed over.
\<close>

definition cross :: reaction where
  "cross = \<lparr>emoji_id = None, emoji_name = cross_mark\<rparr>"

fun list_rules :: "platform \<Rightarrow> channel \<Rightarrow> string list \<Rightarrow> action" where
  "list_rules p ch [] w = ([], w)"
| "list_rules p ch (k # ks) w =
     (case (case replacements (config w) (home_id ch) of
              None \<Rightarrow> None | Some table \<Rightarrow> map_of table k) of
        None \<Rightarrow> list_rules p ch ks w
      | Some v \<Rightarrow>
          (let line = Text (''`'' @ k @ ''` is replaced with `'' @ v @ ''`'')
           in case call_await (Send (channel_id ch) line) w of
                (es, w1) \<Rightarrow>
                  (case (if delivers p (channel_id ch) line
                         then call_await (React (channel_id ch) line cross) w1 else ([], w1)) of
                     (es', w2) \<Rightarrow>
                       (case list_rules p ch ks w2 of (es'', w3) \<Rightarrow> (es @ es' @ es'', w3)))))"

definition sendReplacements :: "platform \<Rightarrow> channel \<Rightarrow> action" where
  "sendReplacements p ch w =
     (case replacements (config w) (home_id ch) of
        Some table \<Rightarrow>
          (case call_await (Send (channel_id ch) (Text (''**This channel has ''
                   @ decimal (length table) @ '' replacement''
                   @ (if length table = 1 then [] else ''s'') @ ''!**''))) w of
             (es, w1) \<Rightarrow>
               (case list_rules p ch (map fst table) w1 of (es', w2) \<Rightarrow> (es @ es', w2)))
      | None \<Rightarrow> ([Send (channel_id ch) (Text ''**This channel has no replacements!**'')], w))"

text \<open>\<open>content.toLowerCase().split(" ")\<close>\<close>

fun split_spaces :: "string \<Rightarrow> string list" where
  "split_spaces [] = [[]]"
| "split_spaces (c # cs) =
     (if c = CHR '' '' then [] # split_spaces cs
      else (case split_spaces cs of [] \<Rightarrow> [[c]] | x # xs \<Rightarrow> (c # x) # xs))"

definition arg :: "string list \<Rightarrow> nat \<Rightarrow> string option" where
  "arg args i = (if i < length args then Some (args ! i) else None)"

text \<open>
  The command that the handler's \<open>switch\<close> selects, with the arguments it hands to the
  command's function.
\<close>

datatype command =
  Commands
  | Replacements
  | Replace "string option" "string option"
  | Prefix "string option"
  | Toggle flag_key "string option"
  | Stop
  | Repost string bool bool bool

definition stop_words :: "string list" where
  "stop_words = [''stop'', ''halt'', ''cease'', ''terminate'', ''suspend'', ''cancel'', ''die'',
     ''end'']"

definition dispatch :: "config \<Rightarrow> message \<Rightarrow> command option" where
  "dispatch cfg m =
     (let args = split_spaces (map lowerChar (content m));
          prefix = prefix_of cfg (home_id (message_channel m));
          hooked = str_includes (hd args) ''hook'';
          lived = str_includes (hd args) ''live''
      in if startsWith (hd args) (prefix @ ''repost'') then
           (case arg args 1 of
              None \<Rightarrow> Some Commands
            | Some a \<Rightarrow>
                if a = ''help'' \<or> a = ''commands'' then Some Commands
                else if a = ''replacements'' then Some Replacements
                else if a = ''replace'' then Some (Replace (arg args 2) (arg args 3))
                else if a = ''prefix'' then Some (Prefix (arg args 2))
                else if a = ''tags'' then Some (Toggle Tags (arg args 2))
                else if a = ''nicknames'' then Some (Toggle Nicknames (arg args 2))
                else if a = ''pins'' then Some (Toggle Pins (arg args 2))
                else if a \<in> set stop_words then Some Stop
                else (case arg args 2 of
                        None \<Rightarrow> Some (Repost a hooked False lived)
                      | Some l \<Rightarrow> if l = [] then Some (Repost a hooked False lived)
                                  else Some (Repost l hooked (a = ''from'') lived)))
         else None)"

text \<open>
  The commands that the handler carries out itself, before it returns, and those that
  it starts and does not await.
\<close>

definition immediate :: "channel \<Rightarrow> command option \<Rightarrow> action" where
  "immediate here cmd w = (case cmd of
       Some (Toggle k v) \<Rightarrow> setBoolean here k v w
     | Some Stop \<Rightarrow> stop here w
     | Some (Replace f r) \<Rightarrow> setReplacement here f r w
     | Some (Prefix v) \<Rightarrow> setPrefix here v w
     | _ \<Rightarrow> ([], w))"

definition started :: "platform \<Rightarrow> message \<Rightarrow> command option \<Rightarrow> task" where
  "started p m cmd w = (case cmd of
       Some Commands \<Rightarrow> sendCommands p (message_channel m) w
     | Some Replacements \<Rightarrow> returned (sendReplacements p (message_channel m) w)
     | Some (Repost word hooked dir lived) \<Rightarrow> repost p (Typed word) m hooked dir lived w
     | _ \<Rightarrow> (None, [], w))"

text \<open>
  The handler that \<open>run\<close> registers. \<open>repostLive\<close> is called first and not awaited: it
  looks its rule up and is suspended in its first network call, the fetch of the
  destination; the handler goes on to the command, unless the author is a bot, and
  returns. The forwarding and a command that was started then go on, each in its own
  waits, in an order that the replies of the network decide; here the reply to the
  fetch of the destination comes last, so that the command runs to its end before the
  forwarding resumes. The result has the error of the forwarding, the error of the
  command, what was sent and the state.
\<close>

definition handler ::
  "platform \<Rightarrow> message \<Rightarrow> world \<Rightarrow> error option \<times> error option \<times> event list \<times> world" where
  "handler p m w =
     (let rule = live_lookup (config w) m;
          cmd = (if is_bot (author m) then None else dispatch (config w) m)
      in case immediate (message_channel m) cmd w of
           (es1, w1) \<Rightarrow>
             (case started p m cmd w1 of
                (err2, es2, w2) \<Rightarrow>
                  (case (case rule of
                           Inl e \<Rightarrow> (Some e, [], w2)
                         | Inr None \<Rightarrow> (None, [], w2)
                         | Inr (Some r) \<Rightarrow> forward_live p m r w2) of
                     (err3, es3, w3) \<Rightarrow> (err3, err2, es1 @ es2 @ es3, w3))))"

text \<open>
  \<open>run()\<close>, and then a message coming in: the handler is registered for the event
  \<open>message\<close>, and runs if the client emits that event for the message.
\<close>

definition run ::
  "platform \<Rightarrow> message \<Rightarrow> world \<Rightarrow> error option \<times> error option \<times> event list \<times> world" where
  "run p m w = (if message_event (lib p) then handler p m w else (None, None, [], w))"

section \<open>Sample data\<close>

text \<open>
  Two libraries: one that has every member the program calls, and the generation with
  which the module loads (it is the one that has \<open>EmbedBuilder\<close>, and also the
  \<open>GatewayIntentBits\<close> and \<open>MessageType\<close> that the module reads when it is loaded),
  which has none of the other members.
\<close>

definition complete_library :: library where
  "complete_library = \<lparr>collection_array = True, type_names = True, message_event = True,
     embed_builder = True, legacy_embeds = True, attachment_filesize = True\<rparr>"

definition loadable_library :: library where
  "loadable_library = \<lparr>collection_array = False, type_names = False, message_event = False,
     embed_builder = True, legacy_embeds = False, attachment_filesize = False\<rparr>"

text \<open>
  A source and a destination channel in two guilds, three users, a text message of the
  source channel, a platform that rejects nothing, has the complete library, accepts
  the finds without operators as patterns and replaces literally, and a state in which
  both channels are active and nothing else is stored or pending.
\<close>

definition source_channel :: channel where
  "source_channel = \<lparr>channel_id = 10, guild = Some 1, kind = Text_kind, channel_name = ''source''\<rparr>"

definition target_channel :: channel where
  "target_channel = \<lparr>channel_id = 20, guild = Some 2, kind = Text_kind, channel_name = ''target''\<rparr>"

definition alice :: user where
  "alice = \<lparr>user_id = 100, username = ''alice'', user_tag = ''alice#0001'', member_name = None,
     avatar_url = ''a.png'', is_bot = False\<rparr>"

definition bob :: user where
  "bob = \<lparr>user_id = 200, username = ''bob'', user_tag = ''bob#0002'', member_name = None,
     avatar_url = ''b.png'', is_bot = False\<rparr>"

definition the_bot :: user where
  "the_bot = \<lparr>user_id = 300, username = ''reposter'', user_tag = ''reposter#0003'',
     member_name = None, avatar_url = ''r.png'', is_bot = True\<rparr>"

definition text_message :: "snowflake \<Rightarrow> user \<Rightarrow> string \<Rightarrow> message" where
  "text_message i u t = \<lparr>message_id = i, message_channel = source_channel,
     message_type = Default, author = u, content = t, attachments = [], embeds = [],
     reactions = [], mentions = []\<rparr>"

definition sample_platform :: "message list \<Rightarrow> bool \<Rightarrow> platform" where
  "sample_platform ms newest = \<lparr>all_messages = ms, newest_first = newest,
     readable = (\<lambda>c. True), pins_of = (\<lambda>c. Some []), delivers = (\<lambda>c pl. True),
     may_send = (\<lambda>c. True), known_emoji = (\<lambda>e. True), hook_of = (\<lambda>c. Cannot_read),
     channel_of = (\<lambda>s. if s = ''20'' then Some target_channel
                        else if s = ''10'' then Some source_channel else None),
     guild_of = (\<lambda>s. None), cached_channels = [source_channel, target_channel],
     owner_of = (\<lambda>g. Some alice), bot_user = the_bot, lib = complete_library,
     regex_valid = list_all (\<lambda>c. c \<notin> set regex_operators),
     regex_replace = replaceLiteral\<rparr>"

definition empty_config :: config where
  "empty_config = \<lparr>replacements = Map.empty, nicknames = Map.empty, prefixes = Map.empty,
     active = Map.empty, tags = Map.empty, pins = Map.empty, live = Map.empty\<rparr>"

definition both_active :: world where
  "both_active = \<lparr>config = empty_config\<lparr>active := [10 \<mapsto> True, 20 \<mapsto> True]\<rparr>,
     saved = empty_config, pending = []\<rparr>"

definition source_only :: world where
  "source_only = \<lparr>config = empty_config\<lparr>active := [10 \<mapsto> True]\<rparr>,
     saved = empty_config, pending = []\<rparr>"

definition three_messages :: "message list" where
  "three_messages = [text_message 1 alice ''one'', text_message 2 bob ''two'',
     text_message 3 alice ''three'']"

definition nothing_active :: world where
  "nothing_active = \<lparr>config = empty_config, saved = empty_config, pending = []\<rparr>"

text \<open>What a \<open>stop\<close> command given in the source channel does to the configuration.\<close>

definition stop_source :: "config \<Rightarrow> config" where
  "stop_source c = config (snd (stop source_channel \<lparr>config = c, saved = c, pending = []\<rparr>))"

definition stop_target :: "config \<Rightarrow> config" where
  "stop_target c = config (snd (stop target_channel \<lparr>config = c, saved = c, pending = []\<rparr>))"

definition repost_command :: message where
  "repost_command = text_message 9 alice ''/repost 20''"

definition live_world :: world where
  "live_world = both_active\<lparr>config := (config both_active)\<lparr>live :=
     [10 \<mapsto> \<lparr>live_channel = 20, live_hook = False\<rparr>]\<rparr>\<rparr>"

text \<open>
  A rich embed, a file of exactly 8,000,000 bytes and one of 8,000,001 bytes, and a
  message of alice with a text, the two files and the embed.
\<close>

definition card :: embed where
  "card = \<lparr>embed_rich = True, embed_author = None, embed_description = Some ''a card'',
     embed_footer = None, embed_title = Some ''Card''\<rparr>"

definition exact_file :: attachment where
  "exact_file = \<lparr>byte_size = 8000000, attachment_url = ''exact.bin''\<rparr>"

definition large_file :: attachment where
  "large_file = \<lparr>byte_size = 8000001, attachment_url = ''large.bin''\<rparr>"

definition full_message :: message where
  "full_message = (text_message 4 alice ''hi'')\<lparr>attachments := [exact_file, large_file],
     embeds := [card]\<rparr>"

text \<open>
  Two pins of the source channel, the newer one first: the third message with a file,
  and the first message with an embed; and the pins enabled.
\<close>

definition pinned_platform :: platform where
  "pinned_platform = (sample_platform three_messages True)\<lparr>pins_of :=
     (\<lambda>c. if c = 10
          then Some [(text_message 3 alice ''three'')\<lparr>attachments := [exact_file]\<rparr>,
                     (text_message 1 alice ''one'')\<lparr>embeds := [card]\<rparr>]
          else Some [])\<rparr>"

definition pins_enabled :: world where
  "pins_enabled = nothing_active\<lparr>config := empty_config\<lparr>pins := [2 \<mapsto> True]\<rparr>\<rparr>"

text \<open>
  The sample platform with the library with which the module loads, or with one member
  of the complete library taken away.
\<close>

definition loadable_platform :: "message list \<Rightarrow> bool \<Rightarrow> platform" where
  "loadable_platform ms newest = (sample_platform ms newest)\<lparr>lib := loadable_library\<rparr>"

definition without_array :: "platform \<Rightarrow> platform" where
  "without_array p = p\<lparr>lib := (lib p)\<lparr>collection_array := False\<rparr>\<rparr>"

definition without_filesize :: "platform \<Rightarrow> platform" where
  "without_filesize p = p\<lparr>lib := (lib p)\<lparr>attachment_filesize := False\<rparr>\<rparr>"

definition without_message_event :: "platform \<Rightarrow> platform" where
  "without_message_event p = p\<lparr>lib := (lib p)\<lparr>message_event := False\<rparr>\<rparr>"

text \<open>
  Three messages of the bot in the source channel: a reply to a command, a card that
  has no text, and a reposted message with its files and its embed; a \<open>stop\<close> command
  typed in the destination channel; a later message of alice in the source channel;
  and a command typed in the destination channel that stores a find which is not a
  pattern.
\<close>

definition bot_reply :: message where
  "bot_reply = text_message 5 the_bot ''**Reposting Terminated!**''"

definition bot_card :: message where
  "bot_card = (text_message 6 the_bot [])\<lparr>embeds := [card]\<rparr>"

definition bot_output :: message where
  "bot_output = full_message\<lparr>author := the_bot\<rparr>"

definition stop_in_target :: message where
  "stop_in_target = (text_message 7 bob ''/repost stop'')\<lparr>message_channel := target_channel\<rparr>"

definition later_message :: message where
  "later_message = text_message 8 alice ''hello''"

definition replace_command :: message where
  "replace_command =
     (text_message 11 bob ''/repost replace ( x'')\<lparr>message_channel := target_channel\<rparr>"


definition three_by_alice :: "message list" where
  "three_by_alice = [text_message 1 alice ''one'', text_message 2 alice ''two'',
     text_message 3 alice ''three'']"




text \<open>The number of places of a text at which \<open>find\<close> occurs.\<close>

fun occurrences :: "string \<Rightarrow> string \<Rightarrow> nat" where
  "occurrences f [] = (if f = [] then 1 else 0)"
| "occurrences f (c # cs) = (if startsWith (c # cs) f then 1 else 0) + occurrences f cs"

definition cascade_config :: config where
  "cascade_config = empty_config\<lparr>replacements := [2 \<mapsto> [(''a'', ''b''), (''b'', ''c'')]]\<rparr>"

definition doubling_config :: config where
  "doubling_config = empty_config\<lparr>replacements := [2 \<mapsto> [(''a'', ''aa'')]]\<rparr>"

definition pets_config :: config where
  "pets_config = empty_config\<lparr>replacements := [2 \<mapsto> [(''cat'', ''dog''), (''red'', ''blue'')]]\<rparr>"

section \<open>What a message is rendered as\<close>

text \<open>Every find of the table that \<open>replaceAll\<close> uses for a channel is a pattern.\<close>

definition compiles :: "platform \<Rightarrow> config \<Rightarrow> channel \<Rightarrow> bool" where
  "compiles p cfg ch = (case replacements cfg (home_id ch) of
       None \<Rightarrow> True
     | Some table \<Rightarrow> list_all (\<lambda>fr. regex_valid p (fst fr)) table)"

text \<open>The text that \<open>replaceAll\<close> then returns.\<close>

definition substituted :: "platform \<Rightarrow> config \<Rightarrow> channel \<Rightarrow> string \<Rightarrow> string" where
  "substituted p cfg ch str = (case replacements cfg (home_id ch) of
       Some table \<Rightarrow> fold (\<lambda>(f, v). regex_replace p f v) table str
     | None \<Rightarrow> str)"

text \<open>The name that \<open>niceName\<close> returns when the configuration stays as it is.\<close>

definition shown_name :: "config \<Rightarrow> channel \<Rightarrow> channel \<Rightarrow> user \<Rightarrow> string" where
  "shown_name cfg to from u =
     (let g = (if kind from = Text_kind
               then (case guild from of Some g \<Rightarrow> g | None \<Rightarrow> channel_id to)
               else channel_id to)
      in if truthy (nicknames cfg g) \<and> kind from = Text_kind then
           (case member_name u of
              Some d \<Rightarrow> d
            | None \<Rightarrow> if truthy (tags cfg g) then user_tag u else username u)
         else if truthy (tags cfg g) then user_tag u else username u)"

text \<open>
  One payload sent to an active channel, with the reactions of the message replayed on
  it: those with an emoji of the platform or of the client's cache, when the payload
  was delivered.
\<close>

definition sent :: "platform \<Rightarrow> channel \<Rightarrow> payload \<Rightarrow> reaction list \<Rightarrow> event list" where
  "sent p ch pl rs = Send (channel_id ch) pl #
     (if delivers p (channel_id ch) pl
      then map (React (channel_id ch) pl)
             (filter (\<lambda>r. case emoji_id r of None \<Rightarrow> True | Some e \<Rightarrow> known_emoji p e) rs)
      else [])"

definition heading ::
  "platform \<Rightarrow> config \<Rightarrow> message \<Rightarrow> channel \<Rightarrow> snowflake option \<Rightarrow> snowflake option
     \<Rightarrow> event list" where
  "heading p cfg m ch hook auth =
     (let name = substituted p cfg ch (shown_name cfg ch (message_channel m) (author m))
      in if message_type m \<noteq> Default then
           [Send (channel_id ch) (Text (''**'' @ name @ systemMessages (message_type m) @ ''**''))]
         else if Some (user_id (author m)) \<noteq> auth then
           (case hook of
              Some h \<Rightarrow> [Webhook_edit h name (avatar_url (author m))]
            | None \<Rightarrow> [Send (channel_id ch) (Text (''**'' @ name @ ''**''))])
         else [])"

definition rewritten :: "platform \<Rightarrow> config \<Rightarrow> channel \<Rightarrow> embed \<Rightarrow> embed" where
  "rewritten p cfg ch e =
     (let nonempty = (\<lambda>t. case t of
                        Some s \<Rightarrow> if s = [] then t else Some (substituted p cfg ch s)
                      | None \<Rightarrow> None)
      in e\<lparr>embed_author := map_option (substituted p cfg ch) (embed_author e),
            embed_description := nonempty (embed_description e),
            embed_footer := map_option (substituted p cfg ch) (embed_footer e),
            embed_title := nonempty (embed_title e)\<rparr>)"

text \<open>
  What \<open>sendMessage\<close> sends for a message when nothing interferes: the heading,
  the text, every attachment and every rich embed, each with the reactions.
\<close>

definition rendering ::
  "platform \<Rightarrow> config \<Rightarrow> message \<Rightarrow> channel \<Rightarrow> snowflake option \<Rightarrow> snowflake option
     \<Rightarrow> event list" where
  "rendering p cfg m ch hook auth =
     heading p cfg m ch hook auth
     @ (if content m \<noteq> [] then sent p ch (Text (substituted p cfg ch (content m))) (reactions m)
        else [])
     @ concat (map (\<lambda>a. sent p ch (attachment_payload p a) (reactions m)) (attachments m))
     @ concat (map (\<lambda>e. sent p ch (Rich (rewritten p cfg ch e)) (reactions m))
                (filter embed_rich (embeds m)))"









section \<open>With nothing pending, the state is left as it is\<close>

lemma await_quiet: "pending w = [] \<Longrightarrow> await w = w"
  by (simp add: await_def)



lemma niceName_quiet:
  "pending w = [] \<Longrightarrow> niceName to from u w = (shown_name (config w) to from u, w)"
  by (simp add: niceName_def shown_name_def Let_def await_quiet)

lemma apply_rules_valid:
  "list_all (\<lambda>fr. regex_valid p (fst fr)) table \<Longrightarrow>
   apply_rules p table s = Inr (fold (\<lambda>(f, v). regex_replace p f v) table s)"
  by (induction table arbitrary: s) auto

lemma replaceAll_compiles:
  "compiles p cfg ch \<Longrightarrow> replaceAll p cfg ch s = Inr (substituted p cfg ch s)"
  by (auto simp: compiles_def replaceAll_def substituted_def apply_rules_valid split: option.splits)

lemma author_line_events:
  assumes "pending w = []" and "compiles p (config w) ch"
  shows "author_line p m ch hook auth w = (None, heading p (config w) m ch hook auth, w)"
  using assms
  by (auto simp: author_line_def heading_def niceName_quiet replaceAll_compiles returned_def
      call_await_def await_quiet Let_def split: option.splits)



lemma rewrite_field_compiles:
  "compiles p cfg ch \<Longrightarrow> rewrite_field p cfg ch True t = Inr (map_option (substituted p cfg ch) t)"
  "compiles p cfg ch \<Longrightarrow> rewrite_field p cfg ch False t
     = Inr (case t of Some s \<Rightarrow> if s = [] then t else Some (substituted p cfg ch s)
                    | None \<Rightarrow> None)"
  by (auto simp: rewrite_field_def replaceAll_compiles split: option.splits)

lemma replaceEmbedText_compiles:
  "compiles p cfg ch \<Longrightarrow> embed_builder (lib p) \<Longrightarrow>
   replaceEmbedText p cfg e ch = Inr (rewritten p cfg ch e)"
  by (simp add: replaceEmbedText_def rewrite_field_compiles rewritten_def)







lemma fetchMessages_inactive:
  "inactive (config w) ch (Some (message_channel m)) \<Longrightarrow>
   fetchMessages p m ch hook auth w = (None, [], w)"
  by (simp add: fetchMessages.simps)

lemma fetchMessages_quiet_rejected:
  assumes "pending w = []" and "\<not> inactive (config w) ch (Some (message_channel m))"
    and "fetch p (message_channel m) 100 (message_id m) = None"
  shows "fetchMessages p m ch hook auth w =
    (None, [Fetch (channel_id (message_channel m)) 100 (message_id m),
      Send (channel_id ch) (Text ''**Couldn't fetch messages!**''),
      Send (channel_id ch) (Text ''**Repost Complete!**'')], w)"
  using assms by (simp add: fetchMessages.simps[of p m] await_quiet call_await_def)

lemma fetchMessages_quiet_done:
  assumes "pending w = []" and "\<not> inactive (config w) ch (Some (message_channel m))"
    and "fetch p (message_channel m) 100 (message_id m) = Some []"
  shows "fetchMessages p m ch hook auth w =
    (None, [Fetch (channel_id (message_channel m)) 100 (message_id m),
      Send (channel_id ch) (Text ''**Repost Complete!**'')], w)"
  using assms by (simp add: fetchMessages.simps[of p m] await_quiet call_await_def)


section \<open>The walk over the history\<close>


lemma after_cursor_channel:
  "x \<in> set (after_cursor p c a) \<Longrightarrow> channel_id (message_channel x) = c"
  by (simp add: after_cursor_def)


lemma fetch_set:
  "fetch p c lim a = Some ms \<Longrightarrow> set ms = set (take lim (after_cursor p (channel_id c) a))"
  by (cases "newest_first p") (auto simp: fetch_def split: if_splits)








section \<open>The copy, with nothing pending\<close>











section \<open>The stop command\<close>

text \<open>
  C8. For every state and every channel, \<open>stop\<close> removes the entries of \<open>active\<close> and of
  \<open>live\<close> under the channel's identifier and nothing else: both maps are the old ones
  restricted to the other identifiers, and the replacements, nicknames, prefixes, tags
  and pins are the old ones. The result is what is written to the file.
\<close>

theorem stop_frame:
  "active (config (snd (stop ch w))) = active (config w) |` (- {channel_id ch})
 \<and> live (config (snd (stop ch w))) = live (config w) |` (- {channel_id ch})
 \<and> replacements (config (snd (stop ch w))) = replacements (config w)
 \<and> nicknames (config (snd (stop ch w))) = nicknames (config w)
 \<and> prefixes (config (snd (stop ch w))) = prefixes (config w)
 \<and> tags (config (snd (stop ch w))) = tags (config w)
 \<and> pins (config (snd (stop ch w))) = pins (config w)
 \<and> saved (snd (stop ch w)) = config (snd (stop ch w))"
  by (auto simp add: stop_def updateConfig_def restrict_map_def fun_eq_iff)

section \<open>The toggle commands\<close>

lemma get_set_flag: "get_flag k (set_flag k g b cfg) g = Some b"
  by (cases k) (simp_all add: get_flag_def set_flag_def)

text \<open>What holds of the claim: a word of the first list always switches the flag on,
  and without a word the flag becomes the negation of what is stored.\<close>

lemma setBoolean_truthy_word:
  "v \<noteq> [] \<Longrightarrow> matchesAny truthy_words v \<Longrightarrow>
   get_flag key (config (snd (setBoolean ch key (Some v) w))) (home_id ch) = Some True"
  by (simp add: setBoolean_def Let_def updateConfig_def get_set_flag)

lemma setBoolean_no_word:
  "get_flag key (config (snd (setBoolean ch key None w))) (home_id ch)
     = Some (\<not> truthy (get_flag key (config w) (home_id ch)))"
  by (simp add: setBoolean_def Let_def updateConfig_def get_set_flag)

lemma setBoolean_falsy_word:
  "v \<noteq> [] \<Longrightarrow> \<not> matchesAny truthy_words v \<Longrightarrow> matchesAny falsy_words v \<Longrightarrow>
   get_flag key (config (snd (setBoolean ch key (Some v) w))) (home_id ch) = Some False"
  by (simp add: setBoolean_def Let_def updateConfig_def get_set_flag)

text \<open>
  C2. The claim fails for two words of the second list: \<open>disagree\<close> contains \<open>agree\<close> and
  \<open>-1\<close> contains \<open>1\<close>, so the test for the first list, which comes first and is not
  anchored, succeeds: for every channel, key and state, \<open>tags disagree\<close> and \<open>tags -1\<close>
  switch the flag on. These are the only two such words.
\<close>

theorem setBoolean_disagree_switches_on:
  "get_flag key (config (snd (setBoolean ch key (Some ''disagree'') w))) (home_id ch) = Some True
 \<and> get_flag key (config (snd (setBoolean ch key (Some ''-1'') w))) (home_id ch) = Some True
 \<and> filter (matchesAny truthy_words) falsy_words = [''disagree'', ''-1'']"
  by (simp add: setBoolean_def Let_def matchesAny_def truthy_words_def falsy_words_def
      updateConfig_def get_set_flag)

section \<open>The replacement table\<close>

lemma startsWith_append: "startsWith s f \<Longrightarrow> s = f @ drop (length f) s"
  by (induction s f rule: startsWith.induct) auto

lemma occurrences_drop: "occurrences f s = 0 \<Longrightarrow> occurrences f (drop n s) = 0"
proof (induction s arbitrary: n)
  case Nil
  then show ?case by simp
next
  case (Cons c cs)
  then show ?case by (cases n) (auto split: if_splits)
qed

lemma replaceLiteral_absent: "occurrences f s = 0 \<Longrightarrow> replaceLiteral f r s = s"
proof (induction s)
  case Nil
  then show ?case by (cases f) (auto split: if_splits)
next
  case (Cons c cs)
  then show ?case by (cases f) (auto split: if_splits)
qed

lemma replaceLiteral_once:
  "f \<noteq> [] \<Longrightarrow> occurrences f s = 1 \<Longrightarrow>
   \<exists>pre post. s = pre @ f @ post \<and> replaceLiteral f r s = pre @ r @ post"
proof (induction s)
  case Nil
  then show ?case by simp
next
  case (Cons c cs)
  obtain a f' where f: "f = a # f'" using Cons.prems(1) by (cases f) auto
  show ?case
  proof (cases "startsWith (c # cs) f")
    case True
    with Cons.prems(2) have z: "occurrences f cs = 0" by simp
    have "occurrences f (drop (length f') cs) = 0" by (rule occurrences_drop[OF z])
    then have "replaceLiteral f r (drop (length f') cs) = drop (length f') cs"
      by (rule replaceLiteral_absent)
    then have "replaceLiteral f r (c # cs) = [] @ r @ drop (length f') cs"
      using True f by simp
    moreover have "c # cs = [] @ f @ drop (length f') cs"
      using startsWith_append[OF True] f by simp
    ultimately show ?thesis by blast
  next
    case False
    with Cons.prems(2) have "occurrences f cs = 1" by simp
    from Cons.IH[OF Cons.prems(1) this] obtain pre post
      where "cs = pre @ f @ post" "replaceLiteral f r cs = pre @ r @ post" by blast
    moreover have "replaceLiteral f r (c # cs) = c # replaceLiteral f r cs"
      using False f by auto
    ultimately have "c # cs = (c # pre) @ f @ post"
      "replaceLiteral f r (c # cs) = (c # pre) @ r @ post"
      by simp_all
    then show ?thesis by blast
  qed
qed

lemma apply_rules_literal:
  assumes "literal_runtime p" and "\<forall>fr \<in> set table. literal_rule fr"
  shows "apply_rules p table s = Inr (fold (\<lambda>(f, r). replaceLiteral f r) table s)"
  using assms(2)
proof (induction table arbitrary: s)
  case Nil
  then show ?case by simp
next
  case (Cons fr table)
  obtain f r where fr: "fr = (f, r)" by (cases fr)
  have "regex_valid p f" and "regex_replace p f r s = replaceLiteral f r s"
    using assms(1) Cons.prems fr by (auto simp: literal_runtime_def)
  with Cons fr show ?case by simp
qed

lemma fold_absent:
  "\<forall>fr \<in> set table. occurrences (fst fr) s = 0 \<Longrightarrow>
   fold (\<lambda>(f, r). replaceLiteral f r) table s = s"
  by (induction table) (auto simp: replaceLiteral_absent)

lemma sample_literal_runtime: "literal_runtime (sample_platform ms newest)"
  by (simp add: literal_runtime_def sample_platform_def literal_rule_def)

text \<open>
  C5, as the code has it, for a table of literal rules on a runtime that replaces them
  literally. The table is applied rule by rule in its order, each rule to the output of
  the rules before it. When the find of the first rule occurs exactly once in the body,
  that occurrence is replaced by the rule's value, the rest of the body is kept, and
  the remaining rules are applied to the result. When no find of the table occurs in
  the output, applying the table to the output returns it unchanged.
\<close>

theorem replaceAll_literal:
  assumes "literal_runtime p"
    and "replacements cfg (home_id ch) = Some table"
    and "\<forall>fr \<in> set table. literal_rule fr"
  shows "replaceAll p cfg ch body = Inr (fold (\<lambda>(f, r). replaceLiteral f r) table body)
    \<and> (\<forall>f r rest. table = (f, r) # rest \<and> f \<noteq> [] \<and> occurrences f body = 1 \<longrightarrow>
          (\<exists>pre post. body = pre @ f @ post
             \<and> replaceAll p cfg ch body
                 = Inr (fold (\<lambda>(f, r). replaceLiteral f r) rest (pre @ r @ post))))
    \<and> (\<forall>out. replaceAll p cfg ch body = Inr out
             \<and> (\<forall>fr \<in> set table. occurrences (fst fr) out = 0) \<longrightarrow>
          replaceAll p cfg ch out = Inr out)"
proof -
  have ra: "\<And>s. replaceAll p cfg ch s = Inr (fold (\<lambda>(f, r). replaceLiteral f r) table s)"
    using assms(2) apply_rules_literal[OF assms(1,3)] by (simp add: replaceAll_def)
  have 2: "\<forall>f r rest. table = (f, r) # rest \<and> f \<noteq> [] \<and> occurrences f body = 1 \<longrightarrow>
          (\<exists>pre post. body = pre @ f @ post
             \<and> replaceAll p cfg ch body
                 = Inr (fold (\<lambda>(f, r). replaceLiteral f r) rest (pre @ r @ post)))"
  proof (intro allI impI)
    fix f r rest
    assume a: "table = (f, r) # rest \<and> f \<noteq> [] \<and> occurrences f body = 1"
    then obtain pre post where "body = pre @ f @ post" "replaceLiteral f r body = pre @ r @ post"
      using replaceLiteral_once[of f body r] by blast
    with a show "\<exists>pre post. body = pre @ f @ post
             \<and> replaceAll p cfg ch body
                 = Inr (fold (\<lambda>(f, r). replaceLiteral f r) rest (pre @ r @ post))"
      by (auto simp: ra)
  qed
  have 3: "\<forall>out. replaceAll p cfg ch body = Inr out
             \<and> (\<forall>fr \<in> set table. occurrences (fst fr) out = 0) \<longrightarrow>
          replaceAll p cfg ch out = Inr out"
    using fold_absent[of table] by (simp add: ra)
  show ?thesis using ra 2 3 by blast
qed

theorem replaceAll_literal_witness:
  "replaceAll (sample_platform [] True) pets_config target_channel ''a red cat''
     = Inr ''a blue dog''
 \<and> (\<exists>pre post. ''a red cat'' = pre @ ''cat'' @ post
       \<and> replaceAll (sample_platform [] True) pets_config target_channel ''a red cat''
         = Inr (fold (\<lambda>(f, r). replaceLiteral f r) [(''red'', ''blue'')] (pre @ ''dog'' @ post)))
 \<and> replaceAll (sample_platform [] True) pets_config target_channel ''a blue dog''
     = Inr ''a blue dog''"
proof -
  let ?p = "sample_platform [] True"
  let ?t = "[(''cat'', ''dog''), (''red'', ''blue'')]"
  have h2: "replacements pets_config (home_id target_channel) = Some ?t"
    by (simp add: pets_config_def home_id_def target_channel_def)
  have h3: "\<forall>fr \<in> set ?t. literal_rule fr"
    by (simp add: literal_rule_def regex_operators_def)
  note t = replaceAll_literal[OF sample_literal_runtime h2 h3, of "[]" True "''a red cat''"]
  have e: "fold (\<lambda>(f, r). replaceLiteral f r) ?t ''a red cat'' = ''a blue dog''" by simp
  from t have 1: "replaceAll ?p pets_config target_channel ''a red cat'' = Inr ''a blue dog''"
    using e by simp
  have "?t = (''cat'', ''dog'') # [(''red'', ''blue'')] \<and> ''cat'' \<noteq> []
      \<and> occurrences ''cat'' ''a red cat'' = 1" by simp
  with t have 2: "\<exists>pre post. ''a red cat'' = pre @ ''cat'' @ post
       \<and> replaceAll ?p pets_config target_channel ''a red cat''
         = Inr (fold (\<lambda>(f, r). replaceLiteral f r) [(''red'', ''blue'')] (pre @ ''dog'' @ post))"
    by blast
  have "\<forall>fr \<in> set ?t. occurrences (fst fr) ''a blue dog'' = 0" by simp
  with t 1 have 3: "replaceAll ?p pets_config target_channel ''a blue dog'' = Inr ''a blue dog''"
    by blast
  from 1 2 3 show ?thesis by blast
qed

text \<open>
  The claim as stated fails. With the rules \<open>a\<close> to \<open>b\<close> and \<open>b\<close> to \<open>c\<close>, the body \<open>a-b\<close>
  contains each find once and becomes \<open>c-c\<close>, not \<open>b-c\<close>: the second rule also rewrites
  what the first one put in. The value \<open>b\<close> contains the find of the other rule, and
  yet the table leaves its output \<open>c-c\<close> unchanged. With the single rule \<open>a\<close> to \<open>aa\<close> no
  value contains the find of another rule, and yet the output \<open>aa\<close> of the body \<open>a\<close>
  becomes \<open>aaaa\<close>.
\<close>

theorem replaceAll_counterexample:
  "occurrences ''a'' ''a-b'' = 1 \<and> occurrences ''b'' ''a-b'' = 1
 \<and> replaceAll (sample_platform [] True) cascade_config target_channel ''a-b'' = Inr ''c-c''
 \<and> str_includes ''b'' ''b''
 \<and> replaceAll (sample_platform [] True) cascade_config target_channel ''c-c'' = Inr ''c-c''
 \<and> occurrences ''a'' ''a'' = 1
 \<and> replaceAll (sample_platform [] True) doubling_config target_channel ''a'' = Inr ''aa''
 \<and> replaceAll (sample_platform [] True) doubling_config target_channel ''aa'' = Inr ''aaaa''"
  by (simp add: replaceAll_def cascade_config_def doubling_config_def home_id_def
      target_channel_def sample_platform_def regex_operators_def)

section \<open>Author lines over a walk\<close>

lemmas run_defs = repost_def repost_channel_def Let_def copy_history_def sendInfo_def
  copy_messages_def fetchMessages.simps sendMessages_def sendMessage_def author_line_def
  send_content_def niceName_def send_def replaceAll_def home_id_def call_await_def await_def
  returned_def raise_def updateConfig_def fetch_def after_cursor_def inactive_def truthy_def
  matchesAny_def kind_name_def sample_platform_def complete_library_def three_messages_def
  three_by_alice_def text_message_def source_channel_def target_channel_def repost_command_def
  nothing_active_def empty_config_def alice_def bob_def mention_def

text \<open>
  C3. The claim fails at a history of three messages. \<open>sendMessages\<close> replays a fetched
  collection from its last element to its first and remembers the first element as the
  message sent last; \<open>fetchMessages\<close> continues after the collection's last element and
  hands on that element's author. With the newest message listed first, the walk from
  alice, bob, alice sends the third message twice: four texts and four author lines
  for three messages; three messages of alice give one author line and four texts.
  With the oldest listed first, each batch is replayed backwards and the third message,
  sent right after the first, gets no author line: two author lines for the three
  alternating messages.
\<close>

theorem alternating_authors_three:
  "fst (snd (repost (sample_platform three_messages True) (Channel_object target_channel)
       repost_command False False False nothing_active))
   = [Send 10 (Text ''**Reposting to `target`!**''), Send 20 (Info_card 10),
      Send 20 (Text ''__**Messages**__''), Fetch 10 1 0,
      Send 20 (Text ''**alice**''), Send 20 (Text ''one''),
      Fetch 10 100 1,
      Send 20 (Text ''**bob**''), Send 20 (Text ''two''),
      Send 20 (Text ''**alice**''), Send 20 (Text ''three''),
      Fetch 10 100 2,
      Send 20 (Text ''**alice**''), Send 20 (Text ''three''),
      Fetch 10 100 3,
      Send 20 (Text ''**Repost Complete!**'')]
 \<and> fst (snd (repost (sample_platform three_messages False) (Channel_object target_channel)
       repost_command False False False nothing_active))
   = [Send 10 (Text ''**Reposting to `target`!**''), Send 20 (Info_card 10),
      Send 20 (Text ''__**Messages**__''), Fetch 10 1 0,
      Send 20 (Text ''**alice**''), Send 20 (Text ''one''),
      Fetch 10 100 1,
      Send 20 (Text ''three''),
      Send 20 (Text ''**bob**''), Send 20 (Text ''two''),
      Fetch 10 100 3,
      Send 20 (Text ''**Repost Complete!**'')]
 \<and> fst (snd (repost (sample_platform three_by_alice True) (Channel_object target_channel)
       repost_command False False False nothing_active))
   = [Send 10 (Text ''**Reposting to `target`!**''), Send 20 (Info_card 10),
      Send 20 (Text ''__**Messages**__''), Fetch 10 1 0,
      Send 20 (Text ''**alice**''), Send 20 (Text ''one''),
      Fetch 10 100 1,
      Send 20 (Text ''two''), Send 20 (Text ''three''),
      Fetch 10 100 2,
      Send 20 (Text ''three''),
      Fetch 10 100 3,
      Send 20 (Text ''**Repost Complete!**'')]"
  by (simp add: run_defs)

section \<open>The copy of a history\<close>



lemma rendering_embed:
  "e \<in> set (embeds x) \<Longrightarrow> embed_rich e \<Longrightarrow>
   Send (channel_id ch) (Rich (rewritten p cfg ch e)) \<in> set (rendering p cfg x ch hook auth)"
  by (auto simp: rendering_def sent_def)




















section \<open>Evaluation on the sample data\<close>

lemmas eval_defs = repost_def repost_channel_def Let_def copy_history_def sendInfo_def
  copy_messages_def copy_pins_def fetchMessages.simps sendMessages_def sendMessage_def
  author_line_def send_content_def niceName_def send_def replaceAll_def home_id_def
  call_await_def await_def returned_def raise_def updateConfig_def fetch_def after_cursor_def
  inactive_def truthy_def matchesAny_def kind_name_def sample_platform_def complete_library_def
  loadable_library_def loadable_platform_def without_array_def without_filesize_def
  without_message_event_def three_messages_def text_message_def source_channel_def
  target_channel_def repost_command_def nothing_active_def empty_config_def alice_def bob_def
  the_bot_def both_active_def source_only_def attachment_payload_def replaceEmbedText_def
  rewrite_field_def card_def large_file_def exact_file_def full_message_def live_world_def
  run_def handler_def live_lookup_def forward_live_def dispatch_def immediate_def started_def
  stop_def prefix_of_def lowerChar_def upper_letters_def lower_letters_def arg_def
  stop_words_def decimal.simps stop_target_def stop_source_def pinned_platform_def
  pins_enabled_def bot_reply_def bot_card_def bot_output_def stop_in_target_def
  later_message_def replace_command_def setReplacement_def table_put_def index_key_def
  number_of_def digit_of_def regex_operators_def

text \<open>
  A find that is not a pattern gets into the table by the command \<open>replace\<close>; from
  then on \<open>replaceAll\<close> raises for the channels of that guild, and \<open>sendMessage\<close> to
  such a channel raises before it sends anything.
\<close>

lemma invalid_find_raises:
  "replacements (config (snd (snd (snd (run (sample_platform [] True) replace_command
      both_active))))) 2 = Some [(''('', ''x'')]
 \<and> replaceAll (sample_platform [] True)
      (config (snd (snd (snd (run (sample_platform [] True) replace_command both_active)))))
      target_channel ''hi'' = Inl SyntaxError
 \<and> fst (sendMessage (sample_platform [] True) full_message target_channel None None
      (snd (snd (snd (run (sample_platform [] True) replace_command both_active)))))
     = Some SyntaxError
 \<and> fst (snd (sendMessage (sample_platform [] True) full_message target_channel None None
      (snd (snd (snd (run (sample_platform [] True) replace_command both_active))))))
     = []"
  by (simp add: eval_defs)

section \<open>Attachments\<close>

text \<open>
  C6. The program compares \<open>attachment.filesize\<close> with 8,000,000. On a library whose
  attachments have no property of that name the comparison fails for every size, and
  every attachment is sent as a file: so with the library with which the module loads,
  where the message with a file of exactly 8,000,000 bytes and one of 8,000,001 bytes
  has both sent as files. Where the property is there, the first is sent as a file and
  the second as its bare address, as the claim says.
\<close>

theorem oversize_attachment_inlined:
  "attachment_payload (without_filesize p) a = Files [attachment_url a]
 \<and> sendMessage (loadable_platform [] True) full_message target_channel None None both_active
     = (None, [Send 20 (Text ''**alice**''), Send 20 (Text ''hi''),
               Send 20 (Files [''exact.bin'']), Send 20 (Files [''large.bin'']),
               Send 20 (Rich card)], both_active)
 \<and> sendMessage (sample_platform [] True) full_message target_channel None None both_active
     = (None, [Send 20 (Text ''**alice**''), Send 20 (Text ''hi''),
               Send 20 (Files [''exact.bin'']), Send 20 (Text ''large.bin''),
               Send 20 (Rich card)], both_active)"
  by (simp add: eval_defs)

section \<open>Messages of bots\<close>

text \<open>
  C9. \<open>run\<close> registers its handler for the event \<open>message\<close>. On a library that does not
  emit that event no message reaches the handler: for every platform with such a
  library, every message and every state nothing is looked up, sent or changed; so with
  the library with which the module loads, where a reply, a card and a reposted message
  of the bot in a channel with a live rule are not forwarded. Where the event is
  emitted, the handler forwards all three, the card without a text and the files and
  the embed of the reposted message too, and takes no command from them.
\<close>

theorem bot_message_never_handled:
  "run (without_message_event p) m w = (None, None, [], w)
 \<and> run (loadable_platform [] True) bot_reply live_world = (None, None, [], live_world)
 \<and> run (loadable_platform [] True) bot_card live_world = (None, None, [], live_world)
 \<and> run (loadable_platform [] True) bot_output live_world = (None, None, [], live_world)
 \<and> run (sample_platform [] True) bot_reply live_world
     = (None, None, [Send 20 (Text ''**reposter**''),
                     Send 20 (Text ''**Reposting Terminated!**'')], live_world)
 \<and> run (sample_platform [] True) bot_card live_world
     = (None, None, [Send 20 (Text ''**reposter**''), Send 20 (Rich card)], live_world)
 \<and> run (sample_platform [] True) bot_output live_world
     = (None, None, [Send 20 (Text ''**reposter**''), Send 20 (Text ''hi''),
                     Send 20 (Files [''exact.bin'']), Send 20 (Text ''large.bin''),
                     Send 20 (Rich card)], live_world)"
  by (simp add: eval_defs)

section \<open>Pins\<close>

text \<open>
  C4. \<open>sendMessages\<close> reverses a collection by \<open>messages.array().reverse()\<close>. On a
  library whose collections have no method \<open>array\<close> it raises for every collection that
  is not empty, whenever the destination is active. So a copy with the pins enabled and
  two pins raises when it comes to replay them, after the heading and the fetch of the
  pins, and copies neither a pin nor a message of the history; with the library with
  which the module loads it raises before that, in the guards. Where the library has
  all that the program calls, the same copy replays the older pin, with its embed,
  then the newer one, with its file, and only then begins the history.
\<close>

theorem pins_replay_raises:
  "sendMessages (without_array p) (Some (x # xs)) ch hook auth w
     = (if inactive (config w) ch None then (None, [], w) else (Some TypeError, [], w))
 \<and> fst (repost (without_array pinned_platform) (Typed ''20'') repost_command False False False
        pins_enabled) = Some TypeError
 \<and> fst (snd (repost (without_array pinned_platform) (Typed ''20'') repost_command False False
        False pins_enabled))
     = [Send 10 (Text ''**Reposting to `target`!**''), Send 20 (Info_card 10),
        Send 20 (Text ''__**Pins**__''), Fetch_pinned 10]
 \<and> repost (pinned_platform\<lparr>lib := loadable_library\<rparr>) (Typed ''20'') repost_command False
        False False pins_enabled = (Some TypeError, [], pins_enabled)
 \<and> fst (repost pinned_platform (Typed ''20'') repost_command False False False pins_enabled)
     = None
 \<and> fst (snd (repost pinned_platform (Typed ''20'') repost_command False False False
        pins_enabled))
     = [Send 10 (Text ''**Reposting to `target`!**''), Send 20 (Info_card 10),
        Send 20 (Text ''__**Pins**__''), Fetch_pinned 10,
        Send 20 (Text ''**alice**''), Send 20 (Text ''one''), Send 20 (Rich card),
        Send 20 (Text ''three''), Send 20 (Files [''exact.bin'']),
        Send 20 (Text ''__**Messages**__''), Fetch 10 1 0,
        Send 20 (Text ''**alice**''), Send 20 (Text ''one''),
        Fetch 10 100 1,
        Send 20 (Text ''**bob**''), Send 20 (Text ''two''),
        Send 20 (Text ''**alice**''), Send 20 (Text ''three''),
        Fetch 10 100 2,
        Send 20 (Text ''**alice**''), Send 20 (Text ''three''),
        Fetch 10 100 3,
        Send 20 (Text ''**Repost Complete!**'')]"
  by (simp add: eval_defs)

section \<open>Inactive channels\<close>

lemma send_inactive: "inactive (config w) ch None \<Longrightarrow> send p ch pl rs w = ([], w)"
  by (simp add: send_def)

lemma send_attachments_inactive:
  "inactive (config w) ch None \<Longrightarrow> send_attachments p ch as rs w = ([], w)"
  by (induction as) (simp_all add: send_inactive)

lemma send_embeds_inactive:
  "inactive (config w) ch None \<Longrightarrow> compiles p (config w) ch \<Longrightarrow> embed_builder (lib p) \<Longrightarrow>
   send_embeds p ch es rs w = (None, [], w)"
  by (induction es) (simp_all add: send_inactive replaceEmbedText_compiles)

text \<open>
  With the destination inactive and the source active (nothing pending, every find a
  pattern), \<open>sendMessage\<close> sends the heading of the message to the destination and holds
  back the text, the attachments and the embeds.
\<close>

lemma sendMessage_inactive_destination:
  assumes "pending w = []" and "inactive (config w) ch None"
    and "\<not> inactive (config w) ch (Some (message_channel m))"
    and "compiles p (config w) ch" and "embed_builder (lib p)"
  shows "sendMessage p m ch hook auth w = (None, heading p (config w) m ch hook auth, w)"
  using assms
  by (simp add: sendMessage_def author_line_events send_content_def replaceAll_compiles
      send_inactive send_attachments_inactive send_embeds_inactive returned_def)

text \<open>
  C10. \<open>send\<close> returns before it sends when the destination is inactive, but
  \<open>sendMessage\<close> hands the destination to \<open>inactive\<close> together with the source, and
  \<open>inactive\<close> then reads the flag of the source only. With the source active and the
  flag of the destination absent, \<open>sendMessage\<close> sends the author's line of a message
  to the destination with \<open>channel.send\<close>, while the text, the files and the embed of
  the same message, which go out when the destination is active, are held back by
  \<open>send\<close>. So after a \<open>stop\<close> typed in the destination of a live rule, which leaves
  the rule in place, a later message of the source puts its bare author's line into
  the stopped destination.
\<close>

theorem inactive_destination_author_line:
  "inactive (config source_only) target_channel None
 \<and> send (sample_platform [] True) target_channel (Text ''hi'') [] source_only
     = ([], source_only)
 \<and> sendMessage (sample_platform [] True) full_message target_channel None None source_only
     = (None, [Send 20 (Text ''**alice**'')], source_only)
 \<and> sendMessage (sample_platform [] True) full_message target_channel None None both_active
     = (None, [Send 20 (Text ''**alice**''), Send 20 (Text ''hi''),
               Send 20 (Files [''exact.bin'']), Send 20 (Text ''large.bin''),
               Send 20 (Rich card)], both_active)
 \<and> fst (snd (snd (run (sample_platform [] True) stop_in_target live_world)))
     = [Send 20 (Text ''**Reposting Terminated!**'')]
 \<and> inactive
       (config (snd (snd (snd (run (sample_platform [] True) stop_in_target live_world)))))
       target_channel None
 \<and> live (config (snd (snd (snd (run (sample_platform [] True) stop_in_target live_world))))) 10
     = Some \<lparr>live_channel = 20, live_hook = False\<rparr>
 \<and> fst (snd (snd (run (sample_platform [] True) later_message
       (snd (snd (snd (run (sample_platform [] True) stop_in_target live_world)))))))
     = [Send 20 (Text ''**alice**'')]"
  by (simp add: eval_defs)

section \<open>Stopping a walk\<close>

lemma sendMessages_inactive:
  "inactive (config w) ch None \<Longrightarrow> sendMessages p ms ch hook auth w = (None, [], w)"
  by (simp add: sendMessages_def)

lemma fetchMessages_inactive_batch:
  assumes "pending w = []" and "\<not> inactive (config w) ch (Some (message_channel m))"
    and "inactive (config w) ch None"
    and "fetch p (message_channel m) 100 (message_id m) = Some (x # xs)"
  shows "fetchMessages p m ch hook auth w =
    (case fetchMessages p (last (x # xs)) ch hook (Some (user_id (author (last (x # xs))))) w of
       (err, es, w') \<Rightarrow>
         (err, Fetch (channel_id (message_channel m)) 100 (message_id m) # es, w'))"
  using assms
  by (simp add: fetchMessages.simps[of p m] await_quiet sendMessages_inactive
      del: last.simps split: prod.splits)

text \<open>
  With the destination inactive and the source active (nothing pending, the source
  readable), the walk does not end: it fetches batch after batch to the end of the
  history, copies nothing, and then sends the completion notice to the destination.
\<close>

lemma walk_past_inactive_destination:
  assumes "pending w = []" and "inactive (config w) ch None"
    and "truthy (active (config w) c)" and "readable p c"
  shows "channel_id (message_channel m) = c \<Longrightarrow>
    \<exists>cursors a. fetchMessages p m ch hook auth w
        = (None, map (Fetch c 100) cursors
             @ [Fetch c 100 a, Send (channel_id ch) (Text ''**Repost Complete!**'')], w)
      \<and> after_cursor p c a = []"
proof (induction "length (after_cursor p c (message_id m))" arbitrary: m auth rule: less_induct)
  case less
  let ?A = "after_cursor p c (message_id m)"
  let ?batch = "(if newest_first p then rev else id) (take 100 ?A)"
  have src: "\<not> inactive (config w) ch (Some (message_channel m))"
    using assms(3) less.prems(1) by (simp add: inactive_def)
  have f: "fetch p (message_channel m) 100 (message_id m) = Some ?batch"
    using assms(4) less.prems(1) by (simp add: fetch_def)
  show ?case
  proof (cases ?batch)
    case Nil
    then have "?A = []" by (cases ?A) (auto split: if_splits)
    moreover have "fetchMessages p m ch hook auth w
        = (None, map (Fetch c 100) [] @ [Fetch c 100 (message_id m),
             Send (channel_id ch) (Text ''**Repost Complete!**'')], w)"
      using fetchMessages_quiet_done[OF assms(1) src, of p hook auth] f Nil less.prems(1) by simp
    ultimately show ?thesis by blast
  next
    case (Cons y ys)
    have fb: "fetch p (message_channel m) 100 (message_id m) = Some (y # ys)" using f Cons by simp
    have "last (y # ys) \<in> set (take 100 ?A)"
      using fetch_set[OF fb] less.prems(1) last_in_set[of "y # ys"] by blast
    then have lastA: "last (y # ys) \<in> set ?A" by (rule in_set_takeD)
    have c: "channel_id (message_channel (last (y # ys))) = c"
      by (rule after_cursor_channel[OF lastA])
    have sm: "length (after_cursor p c (message_id (last (y # ys)))) < length ?A"
      using after_cursor_shrinks[OF lastA] c by simp
    from less.hyps[OF sm c, of "Some (user_id (author (last (y # ys))))"]
    obtain cursors a where e: "fetchMessages p (last (y # ys)) ch hook
          (Some (user_id (author (last (y # ys))))) w
        = (None, map (Fetch c 100) cursors
             @ [Fetch c 100 a, Send (channel_id ch) (Text ''**Repost Complete!**'')], w)"
      and a: "after_cursor p c a = []" by blast
    have "fetchMessages p m ch hook auth w
        = (None, map (Fetch c 100) (message_id m # cursors)
             @ [Fetch c 100 a, Send (channel_id ch) (Text ''**Repost Complete!**'')], w)"
      using fetchMessages_inactive_batch[OF assms(1) src assms(2) fb, of hook auth] e
        less.prems(1)
      by (simp del: last.simps)
    with a show ?thesis by blast
  qed
qed

text \<open>
  C7. The checks of \<open>fetchMessages\<close> hand the destination to \<open>inactive\<close> together with
  the source, and \<open>inactive\<close> then reads the flag of the source only. A \<open>stop\<close> typed in
  the destination while the walk waits for its first batch removes the flag of the
  destination; \<open>sendMessages\<close>, called next, returns on that flag and copies nothing,
  but the walk does not abort: it fetches on to the end of the history and then posts
  the completion notice in the stopped destination. So does the walk of a whole copy
  in which the \<open>stop\<close> arrives at that moment. A \<open>stop\<close> typed in the source at the same
  moment ends the walk after the fetch, as the claim says. The last two sentences of
  the theorem set the walk that is left alone, which copies the text, the files and
  the embed of the second message, beside the walk with the \<open>stop\<close> in the destination.
\<close>

theorem stop_destination_walk_continues:
  "inactive (stop_target (config both_active)) target_channel None
 \<and> fetchMessages (sample_platform three_messages True) (text_message 1 alice ''one'')
      target_channel None (Some 100) (both_active\<lparr>pending := [stop_target]\<rparr>)
    = (None, [Fetch 10 100 1, Fetch 10 100 2, Fetch 10 100 3,
              Send 20 (Text ''**Repost Complete!**'')], source_only)
 \<and> sendMessages (sample_platform three_messages True) (Some three_messages) target_channel
      None None source_only = (None, [], source_only)
 \<and> fst (snd (repost (sample_platform three_messages True) (Typed ''20'') repost_command
      False False False
      (nothing_active\<lparr>pending := [id, id, id, id, id, id, id, id, stop_target]\<rparr>)))
    = [Send 10 (Text ''**Reposting to `target`!**''), Send 20 (Info_card 10),
       Send 20 (Text ''__**Messages**__''), Fetch 10 1 0,
       Send 20 (Text ''**alice**''), Send 20 (Text ''one''),
       Fetch 10 100 1, Fetch 10 100 2, Fetch 10 100 3,
       Send 20 (Text ''**Repost Complete!**'')]
 \<and> fst (snd (fetchMessages (sample_platform three_messages True) (text_message 1 alice ''one'')
      target_channel None (Some 100) (both_active\<lparr>pending := [stop_source]\<rparr>)))
    = [Fetch 10 100 1]
 \<and> fetchMessages (sample_platform [text_message 1 alice ''one'', full_message] True)
      (text_message 1 alice ''one'') target_channel None (Some 100) both_active
    = (None, [Fetch 10 100 1, Send 20 (Text ''hi''), Send 20 (Files [''exact.bin'']),
              Send 20 (Text ''large.bin''), Send 20 (Rich card), Fetch 10 100 4,
              Send 20 (Text ''**Repost Complete!**'')], both_active)
 \<and> fetchMessages (sample_platform [text_message 1 alice ''one'', full_message] True)
      (text_message 1 alice ''one'') target_channel None (Some 100)
      (both_active\<lparr>pending := [stop_target]\<rparr>)
    = (None, [Fetch 10 100 1, Fetch 10 100 4,
              Send 20 (Text ''**Repost Complete!**'')], source_only)"
  by (simp add: eval_defs)


end
